theory Spec2Isabelle
  imports Complex_Main
begin

section \<open>Python values decoded from the provider's JSON replies\<close>

text \<open>
  \<^verbatim>\<open>EnvioMain.py\<close> works on whatever \<^verbatim>\<open>requests\<close> decodes from the replies of the
  telemetry provider: \<^verbatim>\<open>None\<close>, booleans, integers, floats, strings, lists and
  dictionaries. A dictionary is kept as an association list read with \<open>map_of\<close>.
  A float is a finite value, negative zero, an infinity or NaN; the finite values are
  taken among the rationals, of which the doubles are a part.
\<close>

datatype pyfloat = Finite rat | NegZero | PosInf | NegInf | NaN

datatype json =
    JNull
  | JBool bool
  | JInt int
  | JFloat pyfloat
  | JStr string
  | JList "json list"
  | JObj "(string \<times> json) list"

text \<open>The exceptions the run can meet; all of them derive from \<^verbatim>\<open>Exception\<close>.\<close>

datatype py_error =
    AttributeError
  | TypeError
  | KeyError
  | ValueError
  | ParserError
  | OverflowError
  | RequestError
  | IllegalCharacterError
  | OSError
  | SMTPError

text \<open>
  Library code the script calls and that is not part of the repository:
  \<open>dp_parse s\<close> stands for \<^verbatim>\<open>dp.parse(s).astimezone(pytz.timezone(MX_TZ))\<close>, giving the
  instant in microseconds since the epoch or the exception raised; \<open>py_repr\<close> is the
  built-in text of floats, lists and dictionaries.
\<close>

record pylib =
  dp_parse :: "string \<Rightarrow> py_error + int"
  py_repr :: "json \<Rightarrow> string"

definition and_then :: "'e + 'a \<Rightarrow> ('a \<Rightarrow> 'e + 'b) \<Rightarrow> 'e + 'b" where
  "and_then m f = (case m of Inl e \<Rightarrow> Inl e | Inr x \<Rightarrow> f x)"

text \<open>Truth value of a Python object, as \<^verbatim>\<open>if t:\<close>, \<^verbatim>\<open>not ecu\<close> and \<^verbatim>\<open>or\<close> read it.\<close>

fun truthy :: "json \<Rightarrow> bool" where
  "truthy JNull = False"
| "truthy (JBool b) = b"
| "truthy (JInt i) = (i \<noteq> 0)"
| "truthy (JFloat f) = (f \<noteq> Finite 0 \<and> f \<noteq> NegZero)"
| "truthy (JStr s) = (s \<noteq> [])"
| "truthy (JList xs) = (xs \<noteq> [])"
| "truthy (JObj kvs) = (kvs \<noteq> [])"

text \<open>
  The numeric value of a Python number; \<^verbatim>\<open>True\<close> and \<^verbatim>\<open>False\<close> are the integers 1 and
  0, and both zeros of the floats are the same number.
\<close>

fun num_of :: "json \<Rightarrow> pyfloat option" where
  "num_of (JBool b) = Some (Finite (if b then 1 else 0))"
| "num_of (JInt i) = Some (Finite (of_int i))"
| "num_of (JFloat NegZero) = Some (Finite 0)"
| "num_of (JFloat f) = Some f"
| "num_of _ = None"

text \<open>\<^verbatim>\<open>speed == 0\<close>: true of a number of value zero, false of everything else.\<close>

definition eq_zero :: "json \<Rightarrow> bool" where
  "eq_zero v = (num_of v = Some (Finite 0))"

text \<open>\<^verbatim>\<open>d.get(k, default)\<close>: only a dictionary has the method.\<close>

definition py_get :: "json \<Rightarrow> string \<Rightarrow> json \<Rightarrow> py_error + json" where
  "py_get d k dflt =
     (case d of
        JObj kvs \<Rightarrow> Inr (case map_of kvs k of Some v \<Rightarrow> v | None \<Rightarrow> dflt)
      | _ \<Rightarrow> Inl AttributeError)"

text \<open>\<^verbatim>\<open>d[k]\<close> with a string key.\<close>

definition py_getitem :: "json \<Rightarrow> string \<Rightarrow> py_error + json" where
  "py_getitem d k =
     (case d of
        JObj kvs \<Rightarrow> (case map_of kvs k of Some v \<Rightarrow> Inr v | None \<Rightarrow> Inl KeyError)
      | _ \<Rightarrow> Inl TypeError)"

text \<open>
  Iteration, as a \<^verbatim>\<open>for\<close> loop or a comprehension does it: a list gives its
  elements, a dictionary its keys, a string its characters, anything else raises.
\<close>

fun py_iter :: "json \<Rightarrow> py_error + json list" where
  "py_iter (JList xs) = Inr xs"
| "py_iter (JObj kvs) = Inr (map (\<lambda>kv. JStr (fst kv)) kvs)"
| "py_iter (JStr s) = Inr (map (\<lambda>c. JStr [c]) s)"
| "py_iter _ = Inl TypeError"

text \<open>
  Membership in a Python set: the element is hashed first (lists and dictionaries
  raise), then compared with \<^verbatim>\<open>==\<close>, under which numbers are equal by value and NaN
  equals nothing.
\<close>

definition hashable :: "json \<Rightarrow> bool" where
  "hashable v = (case v of JList _ \<Rightarrow> False | JObj _ \<Rightarrow> False | _ \<Rightarrow> True)"

definition key_eq :: "json \<Rightarrow> json \<Rightarrow> bool" where
  "key_eq x y =
     (case (num_of x, num_of y) of
        (Some a, Some b) \<Rightarrow> a = b \<and> a \<noteq> NaN
      | (None, None) \<Rightarrow> x = y
      | _ \<Rightarrow> False)"

definition py_in :: "json \<Rightarrow> json set \<Rightarrow> py_error + bool" where
  "py_in x S = (if hashable x then Inr (\<exists>y\<in>S. key_eq x y) else Inl TypeError)"

text \<open>Decimal text of an integer, and \<^verbatim>\<open>str\<close> as an f-string applies it.\<close>

definition digit :: "nat \<Rightarrow> char" where
  "digit n = ''0123456789'' ! n"

fun show_nat :: "nat \<Rightarrow> string" where
  "show_nat n = (if n < 10 then [digit n] else show_nat (n div 10) @ [digit (n mod 10)])"

definition show_int :: "int \<Rightarrow> string" where
  "show_int i = (if i < 0 then CHR ''-'' # show_nat (nat (- i)) else show_nat (nat i))"

fun py_str :: "pylib \<Rightarrow> json \<Rightarrow> string" where
  "py_str L JNull = ''None''"
| "py_str L (JBool b) = (if b then ''True'' else ''False'')"
| "py_str L (JInt i) = show_int i"
| "py_str L (JStr s) = s"
| "py_str L v = py_repr L v"

section \<open>The exclusion set (lines 108 to 134)\<close>

definition predefined_special :: "string list" where
  "predefined_special =
     [''254792506'', ''254801835'', ''254802150'', ''254802588'',
      ''254803338'', ''254859196'', ''94193861'', ''95243156'',
      ''95243200'', ''95243316'', ''95243513'', ''244349505'',
      ''245970120'', ''254794170'', ''254794716'', ''257477773'']"

text \<open>
  The set comprehension \<^verbatim>\<open>{a["id"] for a in ... if a.get("id")}\<close>, one address record
  after the other: the first exception ends it.
\<close>

fun collect_ids :: "json list \<Rightarrow> py_error + json list" where
  "collect_ids [] = Inr []"
| "collect_ids (a # rest) =
     and_then (py_get a ''id'' JNull) (\<lambda>v.
       if truthy v then
         and_then (py_getitem a ''id'') (\<lambda>w.
           if hashable w then and_then (collect_ids rest) (\<lambda>ws. Inr (w # ws))
           else Inl TypeError)
       else collect_ids rest)"

text \<open>
  \<open>reply\<close> is what \<^verbatim>\<open>requests.get\<close>, \<^verbatim>\<open>raise_for_status\<close> and \<^verbatim>\<open>json()\<close> give for the
  tag: the decoded body, or the exception one of the three raised.
\<close>

definition new_ids :: "py_error + json \<Rightarrow> py_error + json list" where
  "new_ids reply =
     and_then reply (\<lambda>body.
     and_then (py_get body ''data'' (JObj [])) (\<lambda>d.
     and_then (py_get d ''addresses'' (JList [])) (\<lambda>addresses.
     and_then (py_iter addresses) collect_ids)))"

definition special_address_ids :: "py_error + json \<Rightarrow> py_error + json set" where
  "special_address_ids reply =
     and_then (new_ids reply) (\<lambda>ids. Inr (JStr ` set predefined_special \<union> set ids))"

section \<open>One telemetry record (lines 154 to 176)\<close>

record row =
  Unidad :: json
  Ubicacion :: json
  Estatus :: string

text \<open>
  Lines 157 to 160. \<open>now\<close> is \<^verbatim>\<open>now_mx\<close> in microseconds since the epoch; the
  difference of two aware datetimes is the difference of their instants, and one hour
  is 3600000000 microseconds.
\<close>

definition parse_time :: "pylib \<Rightarrow> json \<Rightarrow> py_error + int" where
  "parse_time L t = (case t of JStr s \<Rightarrow> dp_parse L s | _ \<Rightarrow> Inl TypeError)"

definition stale :: "pylib \<Rightarrow> int \<Rightarrow> json \<Rightarrow> py_error + bool" where
  "stale L now t =
     (if truthy t then
        and_then (parse_time L t) (\<lambda>loc_time. Inr (now - loc_time > 3600000000))
      else Inr False)"

text \<open>Lines 168 and 169.\<close>

definition location_of :: "pylib \<Rightarrow> json \<Rightarrow> py_error + json" where
  "location_of L gps =
     and_then (py_get gps ''reverseGeo'' (JObj [])) (\<lambda>rg.
     and_then (py_get rg ''formattedLocation'' JNull) (\<lambda>formatted.
       if truthy formatted then Inr formatted
       else
         and_then (py_get gps ''latitude'' JNull) (\<lambda>lat.
         and_then (py_get gps ''longitude'' JNull) (\<lambda>lon.
           Inr (JStr (''Lat: '' @ py_str L lat @ '', Lon: '' @ py_str L lon))))))"

text \<open>
  In the three definitions that follow, \<open>Inr None\<close> is \<^verbatim>\<open>continue\<close>, \<open>Inr (Some r)\<close> is
  \<^verbatim>\<open>results.append(r)\<close> and \<open>Inl e\<close> is the exception \<open>e\<close> raised.

  Lines 163 to 174: the motion gate, the status, the location and the row.
\<close>

definition motion_gates :: "pylib \<Rightarrow> json \<Rightarrow> json \<Rightarrow> py_error + row option" where
  "motion_gates L u gps =
     and_then (py_get gps ''speedMilesPerHour'' (JInt 0)) (\<lambda>speed.
     and_then (py_get gps ''isEcuSpeed'' (JBool False)) (\<lambda>ecu.
       if eq_zero speed \<and> \<not> truthy ecu then Inr None
       else
         and_then (location_of L gps) (\<lambda>location.
         and_then (py_get u ''name'' (JStr ''Sin nombre'')) (\<lambda>name.
           Inr (Some \<lparr>Unidad = name, Ubicacion = location,
                 Estatus = (if eq_zero speed \<and> truthy ecu then ''DETENIDO''
                            else ''RUTA'')\<rparr>)))))"

text \<open>Lines 161 and 162, and what follows them.\<close>

definition exclusion_gate :: "pylib \<Rightarrow> json set \<Rightarrow> json \<Rightarrow> json \<Rightarrow> py_error + row option" where
  "exclusion_gate L special u gps =
     and_then (py_get gps ''address'' (JObj [])) (\<lambda>address.
     and_then (py_get address ''id'' JNull) (\<lambda>aid.
     and_then (py_in aid special) (\<lambda>excluded.
       if excluded then Inr None else motion_gates L u gps)))"

text \<open>The body of the \<^verbatim>\<open>try\<close>, lines 155 to 174.\<close>

definition process_record :: "pylib \<Rightarrow> int \<Rightarrow> json set \<Rightarrow> json \<Rightarrow> py_error + row option" where
  "process_record L now special u =
     and_then (py_get u ''gps'' (JObj [])) (\<lambda>gps.
     and_then (py_get gps ''time'' JNull) (\<lambda>t.
     and_then (stale L now t) (\<lambda>old.
       if old then Inr None else exclusion_gate L special u gps)))"

text \<open>
  The log, one entry per call of \<^verbatim>\<open>logging\<close>; an entry keeps the text the call
  interpolates.
\<close>

datatype log_event =
    Inicio
  | FaltaToken
  | ErrorTags
  | ErrorVehiculos
  | ProcesandoUnidad string
  | ExcelGenerado string
  | CorreoEnviado
  | ErrorCorreo
  | MediaSubido string
  | TemplateEnviado string
  | ErrorWhatsApp string
  | ArchivoEliminado string
  | NoSePudoEliminar string
  | Finalizada

text \<open>
  The handler, lines 175 and 176: its message reads \<^verbatim>\<open>u.get('name')\<close>, which raises
  again when \<open>u\<close> is not a dictionary, and nothing catches that.
\<close>

definition on_record_error :: "pylib \<Rightarrow> json \<Rightarrow> py_error + log_event" where
  "on_record_error L u =
     and_then (py_get u ''name'' JNull) (\<lambda>n. Inr (ProcesandoUnidad (py_str L n)))"

text \<open>
  The loop of line 153 over \<open>vehicles\<close>, with \<open>results\<close> and the log threaded through.
  \<open>Inl e\<close> is an exception that leaves the loop, and \<^verbatim>\<open>main\<close> with it.
\<close>

fun process_all ::
  "pylib \<Rightarrow> int \<Rightarrow> json set \<Rightarrow> json list \<Rightarrow> row list \<Rightarrow> log_event list
     \<Rightarrow> (py_error + row list) \<times> log_event list" where
  "process_all L now special [] results lg = (Inr results, lg)"
| "process_all L now special (u # us) results lg =
     (case process_record L now special u of
        Inr None \<Rightarrow> process_all L now special us results lg
      | Inr (Some r) \<Rightarrow> process_all L now special us (results @ [r]) lg
      | Inl e \<Rightarrow>
          (case on_record_error L u of
             Inl e' \<Rightarrow> (Inl e', lg)
           | Inr entry \<Rightarrow> process_all L now special us results (lg @ [entry])))"

text \<open>The rows one record adds to \<open>results\<close>: one or none.\<close>

definition rows_of :: "pylib \<Rightarrow> int \<Rightarrow> json set \<Rightarrow> json \<Rightarrow> row list" where
  "rows_of L now special u =
     (case process_record L now special u of Inr (Some r) \<Rightarrow> [r] | _ \<Rightarrow> [])"

section \<open>The worksheet (openpyxl)\<close>

text \<open>
  A worksheet is the cell objects it holds, by row and column, and its merged ranges.
  A position holds no object until a cell is asked for there. The cells of a merged
  range other than the top-left one are \<^verbatim>\<open>MergedCell\<close> objects: they hold no value and
  assigning one raises. Whether a cell can be written is decided by the object at its
  position, not by the ranges. Of a cell's style the model keeps what the script
  assigns: the border, the fill colour and the font colour.
\<close>

record cell =
  cvalue :: json
  merged_cell :: bool
  cell_border :: bool
  cell_fill :: "string option"
  cell_font :: "string option"

record cell_range =
  min_row :: nat
  min_col :: nat
  max_row :: nat
  max_col :: nat

record worksheet =
  cells :: "nat \<times> nat \<Rightarrow> cell option"
  merged :: "cell_range list"

definition empty_cell :: cell where
  "empty_cell =
     \<lparr>cvalue = JNull, merged_cell = False, cell_border = False, cell_fill = None,
      cell_font = None\<rparr>"

definition new_merged_cell :: cell where
  "new_merged_cell = empty_cell\<lparr>merged_cell := True\<rparr>"

text \<open>The cell at a position; asking for it creates an empty one when there is none.\<close>

definition get_cell :: "worksheet \<Rightarrow> nat \<times> nat \<Rightarrow> cell" where
  "get_cell ws p = (case cells ws p of Some c \<Rightarrow> c | None \<Rightarrow> empty_cell)"

definition value_at :: "worksheet \<Rightarrow> nat \<times> nat \<Rightarrow> json" where
  "value_at ws p = cvalue (get_cell ws p)"

text \<open>
  The positions of a range, row by row, as \<^verbatim>\<open>CellRange.cells\<close> lists them; the first is
  the top-left one. A range is within another as \<^verbatim>\<open>CellRange.issubset\<close> says.
\<close>

definition range_cells :: "cell_range \<Rightarrow> (nat \<times> nat) list" where
  "range_cells r =
     List.product [min_row r..<Suc (max_row r)] [min_col r..<Suc (max_col r)]"

definition subrange :: "cell_range \<Rightarrow> cell_range \<Rightarrow> bool" where
  "subrange r r' =
     (min_row r' \<le> min_row r \<and> max_row r \<le> max_row r'
      \<and> min_col r' \<le> min_col r \<and> max_col r \<le> max_col r')"

text \<open>
  What \<^verbatim>\<open>cell.value = v\<close> stores: a string is cut to 32767 characters and refused when
  it holds a control character, a list or a dictionary is refused.
\<close>

definition illegal_char :: "char \<Rightarrow> bool" where
  "illegal_char c =
     (let n = (of_char c :: nat) in n \<le> 8 \<or> n = 11 \<or> n = 12 \<or> (14 \<le> n \<and> n \<le> 31))"

definition bind_value :: "json \<Rightarrow> py_error + json" where
  "bind_value v =
     (case v of
        JList _ \<Rightarrow> Inl ValueError
      | JObj _ \<Rightarrow> Inl ValueError
      | JStr s \<Rightarrow>
          if \<exists>c\<in>set (take 32767 s). illegal_char c then Inl IllegalCharacterError
          else Inr (JStr (take 32767 s))
      | _ \<Rightarrow> Inr v)"

text \<open>\<^verbatim>\<open>ws[p] = v\<close>, and \<^verbatim>\<open>cell.value = v\<close> on the cell at \<open>p\<close>.\<close>

definition set_value :: "worksheet \<Rightarrow> nat \<times> nat \<Rightarrow> json \<Rightarrow> py_error + worksheet" where
  "set_value ws p v =
     (if merged_cell (get_cell ws p) then Inl AttributeError
      else and_then (bind_value v) (\<lambda>stored.
             Inr (ws\<lparr>cells := (cells ws)(p \<mapsto> (get_cell ws p)\<lparr>cvalue := stored\<rparr>)\<rparr>)))"

text \<open>
  \<^verbatim>\<open>ws.cell(row, column, value)\<close> gets the cell, and assigns the value only when it is
  not \<^verbatim>\<open>None\<close>.
\<close>

definition ws_cell :: "worksheet \<Rightarrow> nat \<times> nat \<Rightarrow> json \<Rightarrow> py_error + worksheet" where
  "ws_cell ws p v =
     (if v = JNull then Inr (ws\<lparr>cells := (cells ws)(p \<mapsto> get_cell ws p)\<rparr>)
      else set_value ws p v)"

definition set_border :: "worksheet \<Rightarrow> nat \<times> nat \<Rightarrow> worksheet" where
  "set_border ws p = ws\<lparr>cells := (cells ws)(p \<mapsto> (get_cell ws p)\<lparr>cell_border := True\<rparr>)\<rparr>"

definition set_colours :: "worksheet \<Rightarrow> nat \<times> nat \<Rightarrow> string \<Rightarrow> string \<Rightarrow> worksheet" where
  "set_colours ws p bg fg =
     ws\<lparr>cells := (cells ws)(p \<mapsto> (get_cell ws p)\<lparr>cell_fill := Some bg, cell_font := Some fg\<rparr>)\<rparr>"

text \<open>
  \<^verbatim>\<open>merge_cells\<close>: the top-left cell is fetched, the range is recorded unless a recorded
  range holds it already, and every other position of the range gets a new
  \<^verbatim>\<open>MergedCell\<close>.
\<close>

definition merge_cells :: "worksheet \<Rightarrow> cell_range \<Rightarrow> worksheet" where
  "merge_cells ws r =
     \<lparr>cells = (\<lambda>p. if p \<in> set (tl (range_cells r)) then Some new_merged_cell
                   else if p = (min_row r, min_col r) then Some (get_cell ws p)
                   else cells ws p),
      merged = (if \<exists>r'\<in>set (merged ws). subrange r r' then merged ws else merged ws @ [r])\<rparr>"

text \<open>
  \<^verbatim>\<open>unmerge_cells\<close>: the range must be within a recorded one, or the call raises
  \<^verbatim>\<open>ValueError\<close>; it is taken off the record, and the cell object of every position but
  the top-left one is deleted. Taking off a range that is not recorded, and deleting a
  cell object that is not there, raise \<^verbatim>\<open>KeyError\<close>.
\<close>

definition unmerge_cells :: "worksheet \<Rightarrow> cell_range \<Rightarrow> py_error + worksheet" where
  "unmerge_cells ws r =
     (if \<exists>r'\<in>set (merged ws). subrange r r' then
        if r \<in> set (merged ws) \<and> \<not> (\<exists>p\<in>set (tl (range_cells r)). cells ws p = None)
        then Inr \<lparr>cells = (\<lambda>p. if p \<in> set (tl (range_cells r)) then None else cells ws p),
                  merged = remove1 r (merged ws)\<rparr>
        else Inl KeyError
      else Inl ValueError)"

section \<open>The report (lines 178 to 231)\<close>

definition start_row :: nat where
  "start_row = 7"

text \<open>Lines 184 to 186, over \<^verbatim>\<open>list(ws.merged_cells.ranges)\<close>.\<close>

fun unmerge_rows :: "worksheet \<Rightarrow> cell_range list \<Rightarrow> py_error + worksheet" where
  "unmerge_rows ws [] = Inr ws"
| "unmerge_rows ws (mr # mrs) =
     (if min_row mr \<ge> start_row
      then and_then (unmerge_cells ws mr) (\<lambda>ws'. unmerge_rows ws' mrs)
      else unmerge_rows ws mrs)"

text \<open>
  \<^verbatim>\<open>now_mx\<close>: the instant of the run in microseconds since the epoch, and the fields of
  its local time in the fleet's zone.
\<close>

record datetime =
  instant :: int
  year :: nat
  month :: nat
  day :: nat
  hour :: nat
  minute :: nat
  second :: nat

text \<open>
  \<^verbatim>\<open>date().isoformat()\<close> writes the year on four digits; \<^verbatim>\<open>%m\<close>, \<^verbatim>\<open>%d\<close>, \<^verbatim>\<open>%H\<close>, \<^verbatim>\<open>%M\<close>
  and \<^verbatim>\<open>%S\<close> write two digits, and \<^verbatim>\<open>%Y\<close> the year as it is.
\<close>

definition pad2 :: "nat \<Rightarrow> string" where
  "pad2 n = (if n < 10 then CHR ''0'' # show_nat n else show_nat n)"

definition pad4 :: "nat \<Rightarrow> string" where
  "pad4 n = replicate (4 - length (show_nat n)) CHR ''0'' @ show_nat n"

definition isoformat :: "datetime \<Rightarrow> string" where
  "isoformat d = pad4 (year d) @ ''-'' @ pad2 (month d) @ ''-'' @ pad2 (day d)"

definition hms :: "datetime \<Rightarrow> string" where
  "hms d = pad2 (hour d) @ '':'' @ pad2 (minute d) @ '':'' @ pad2 (second d)"

definition ts_str :: "datetime \<Rightarrow> string" where
  "ts_str d =
     show_nat (year d) @ ''-'' @ pad2 (month d) @ ''-'' @ pad2 (day d) @ ''_'' @
     pad2 (hour d) @ ''-'' @ pad2 (minute d) @ ''-'' @ pad2 (second d)"

text \<open>
  The fields of a local time as a clock of this millennium gives them: a year of four
  digits, the other fields of at most two.
\<close>

definition clock_fields :: "datetime \<Rightarrow> bool" where
  "clock_fields d =
     (1000 \<le> year d \<and> year d < 10000 \<and> month d < 100 \<and> day d < 100
      \<and> hour d < 100 \<and> minute d < 100 \<and> second d < 100)"

text \<open>Lines 209 to 211, over \<^verbatim>\<open>range(2, 9)\<close>.\<close>

fun write_location :: "worksheet \<Rightarrow> nat \<Rightarrow> json \<Rightarrow> nat list \<Rightarrow> py_error + worksheet" where
  "write_location ws i loc [] = Inr ws"
| "write_location ws i loc (col # cols) =
     and_then (ws_cell ws (i, col) (if col = 2 then loc else JNull)) (\<lambda>ws'.
       write_location (set_border ws' (i, col)) i loc cols)"

text \<open>The body of the loop of line 202, for the row of results written at sheet row \<open>i\<close>.\<close>

definition write_row :: "worksheet \<Rightarrow> nat \<Rightarrow> row \<Rightarrow> py_error + worksheet" where
  "write_row ws i r =
     and_then (ws_cell ws (i, 1) (Unidad r)) (\<lambda>ws1.
     and_then
       (write_location
          (merge_cells (set_border ws1 (i, 1))
             \<lparr>min_row = i, min_col = 2, max_row = i, max_col = 8\<rparr>)
          i (Ubicacion r) [2..<9]) (\<lambda>ws2.
     and_then (ws_cell ws2 (i, 9) (JStr (Estatus r))) (\<lambda>ws3.
       Inr (if Estatus r = ''DETENIDO''
            then set_colours (set_border ws3 (i, 9)) (i, 9) ''FFC7CE'' ''9C0006''
            else set_colours (set_border ws3 (i, 9)) (i, 9) ''C6EFCE'' ''006100''))))"

text \<open>\<^verbatim>\<open>enumerate(results, start=start_row)\<close>.\<close>

fun write_rows :: "worksheet \<Rightarrow> nat \<Rightarrow> row list \<Rightarrow> py_error + worksheet" where
  "write_rows ws i [] = Inr ws"
| "write_rows ws i (r # rs) = and_then (write_row ws i r) (\<lambda>ws'. write_rows ws' (Suc i) rs)"

text \<open>Lines 224 and 225.\<close>

definition last_row :: "row list \<Rightarrow> int" where
  "last_row results = int start_row + int (length results) - 1"

definition count_formula :: "row list \<Rightarrow> string" where
  "count_formula results =
     ''=COUNTA(A'' @ show_nat start_row @ '':A'' @ show_int (last_row results) @ '')''"

text \<open>Lines 180 to 225 on the worksheet loaded from the template.\<close>

definition render :: "worksheet \<Rightarrow> datetime \<Rightarrow> row list \<Rightarrow> py_error + worksheet" where
  "render ws0 now results =
     and_then (unmerge_rows ws0 (merged ws0)) (\<lambda>ws.
     and_then (set_value ws (2, 3) (JStr (isoformat now))) (\<lambda>ws1.
     and_then (set_value ws1 (2, 6) (JStr (hms now))) (\<lambda>ws2.
     and_then (write_rows ws2 start_row results) (\<lambda>ws3.
       set_value ws3 (2, 8) (JStr (count_formula results))))))"

section \<open>The run (\<^verbatim>\<open>main\<close>)\<close>

text \<open>
  What the run meets outside itself: the environment, the replies of the provider, the
  clock, and how the mail server, the messaging service and the disk answer. The
  spreadsheet files of the disk and what the run sent are the state; the log file
  \<^verbatim>\<open>reporte_logs.log\<close> is kept apart from them, as the list \<open>logged\<close>.
\<close>

record world =
  samsara_api_token :: "string option"
  tags_reply :: "py_error + json"
  vehicles_reply :: "py_error + json"
  now_mx :: datetime
  base_dir :: string
  save_error :: "py_error option"
  smtp_error :: "py_error option"
  destinos :: "string list"
  media_reply :: "nat \<Rightarrow> py_error + string"
  template_reply :: "nat \<Rightarrow> py_error + string"
  remove_error :: "py_error option"

record state =
  files :: "string \<Rightarrow> worksheet option"
  logged :: "log_event list"
  mails :: "string list"
  chats :: "(string \<times> string) list"

datatype ending = Completed | SysExit nat | Uncaught py_error

definition add_log :: "state \<Rightarrow> log_event \<Rightarrow> state" where
  "add_log s e = s\<lparr>logged := logged s @ [e]\<rparr>"

definition plantilla_path :: "world \<Rightarrow> string" where
  "plantilla_path w = base_dir w @ ''/'' @ ''Plantilla.xlsx''"

definition nuevo_archivo_name :: "world \<Rightarrow> string" where
  "nuevo_archivo_name w = ''Reporte de estatus de unidades '' @ ts_str (now_mx w) @ ''.xlsx''"

definition nuevo_archivo :: "world \<Rightarrow> string" where
  "nuevo_archivo w = base_dir w @ ''/'' @ nuevo_archivo_name w"

text \<open>Lines 179 to 231: load the template, fill the sheet, save it under the new name.\<close>

definition generar_excel :: "world \<Rightarrow> state \<Rightarrow> row list \<Rightarrow> py_error + state" where
  "generar_excel w s results =
     (case files s (plantilla_path w) of
        None \<Rightarrow> Inl OSError
      | Some wb \<Rightarrow>
          and_then (render wb (now_mx w) results) (\<lambda>ws.
            case save_error w of
              Some e \<Rightarrow> Inl e
            | None \<Rightarrow>
                Inr (add_log (s\<lparr>files := (files s)(nuevo_archivo w \<mapsto> ws)\<rparr>)
                       (ExcelGenerado (nuevo_archivo w)))))"

text \<open>Lines 257 to 263; \<open>k\<close> counts the destinations already served.\<close>

fun enviar_whatsapp :: "world \<Rightarrow> state \<Rightarrow> nat \<Rightarrow> string list \<Rightarrow> ending option \<times> state" where
  "enviar_whatsapp w s k [] = (None, s)"
| "enviar_whatsapp w s k (destino # rest) =
     (case media_reply w k of
        Inl e \<Rightarrow> (Some (SysExit 1), add_log s (ErrorWhatsApp destino))
      | Inr media_id \<Rightarrow>
          (case template_reply w k of
             Inl e \<Rightarrow>
               (Some (SysExit 1), add_log (add_log s (MediaSubido media_id)) (ErrorWhatsApp destino))
           | Inr msg_id \<Rightarrow>
               enviar_whatsapp w
                 (add_log (add_log (s\<lparr>chats := chats s @ [(destino, nuevo_archivo w)]\<rparr>)
                    (MediaSubido media_id)) (TemplateEnviado destino))
                 (Suc k) rest))"

text \<open>Lines 265 to 269.\<close>

definition eliminar :: "world \<Rightarrow> state \<Rightarrow> state" where
  "eliminar w s =
     (case remove_error w of
        None \<Rightarrow> add_log (s\<lparr>files := (files s)(nuevo_archivo w := None)\<rparr>)
                  (ArchivoEliminado (nuevo_archivo_name w))
      | Some e \<Rightarrow> add_log s (NoSePudoEliminar (nuevo_archivo_name w)))"

text \<open>Lines 234 to 271.\<close>

definition entregar :: "world \<Rightarrow> state \<Rightarrow> ending \<times> state" where
  "entregar w s =
     (case smtp_error w of
        Some e \<Rightarrow> (SysExit 1, add_log s ErrorCorreo)
      | None \<Rightarrow>
          (case enviar_whatsapp w
                  (add_log (s\<lparr>mails := mails s @ [nuevo_archivo w]\<rparr>) CorreoEnviado)
                  0 (destinos w) of
             (Some x, s') \<Rightarrow> (x, s')
           | (None, s') \<Rightarrow> (Completed, add_log (eliminar w s') Finalizada)))"

definition token_missing :: "world \<Rightarrow> bool" where
  "token_missing w = (case samsara_api_token w of None \<Rightarrow> True | Some t \<Rightarrow> t = [])"

definition main :: "pylib \<Rightarrow> world \<Rightarrow> state \<Rightarrow> ending \<times> state" where
  "main L w s0 =
     (if token_missing w then (SysExit 1, add_log (add_log s0 Inicio) FaltaToken)
      else
        case special_address_ids (tags_reply w) of
          Inl e \<Rightarrow> (SysExit 1, add_log (add_log s0 Inicio) ErrorTags)
        | Inr special \<Rightarrow>
            (case and_then (vehicles_reply w) (\<lambda>body. py_get body ''data'' (JList [])) of
               Inl e \<Rightarrow> (SysExit 1, add_log (add_log s0 Inicio) ErrorVehiculos)
             | Inr vehicles \<Rightarrow>
                 (case py_iter vehicles of
                    Inl e \<Rightarrow> (Uncaught e, add_log s0 Inicio)
                  | Inr us \<Rightarrow>
                      (case process_all L (instant (now_mx w)) special us []
                              (logged (add_log s0 Inicio)) of
                         (Inl e, lg) \<Rightarrow> (Uncaught e, s0\<lparr>logged := lg\<rparr>)
                       | (Inr results, lg) \<Rightarrow>
                           (case generar_excel w (s0\<lparr>logged := lg\<rparr>) results of
                              Inl e \<Rightarrow> (Uncaught e, s0\<lparr>logged := lg\<rparr>)
                            | Inr s1 \<Rightarrow> entregar w s1)))))"

section \<open>Example inputs\<close>

text \<open>
  A library whose date parser knows one timestamp (the instant 0) and whose \<open>py_repr\<close>
  knows the text of two floats.
\<close>

definition lib0 :: pylib where
  "lib0 =
     \<lparr>dp_parse = (\<lambda>s. if s = ''1970-01-01T00:00:00Z'' then Inr 0 else Inl ParserError),
      py_repr = (\<lambda>v. if v = JFloat (Finite (39 / 2)) then ''19.5''
                      else if v = JFloat (Finite (- (397 / 4))) then ''-99.25'' else ''?'')\<rparr>"

text \<open>
  The three observations of the end-to-end scenario of the specification: one at the
  excluded address \<open>X1\<close> moving at 30, one stopped with the ECU flag, one at speed 0
  without it; and an observation two hours old.
\<close>

definition gps_x1 :: "(string \<times> json) list" where
  "gps_x1 =
     [(''address'', JObj [(''id'', JStr ''X1'')]),
      (''speedMilesPerHour'', JInt 30), (''isEcuSpeed'', JBool True)]"

definition gps_x2 :: "(string \<times> json) list" where
  "gps_x2 =
     [(''address'', JObj [(''id'', JStr ''X2'')]),
      (''speedMilesPerHour'', JInt 0), (''isEcuSpeed'', JBool True),
      (''latitude'', JFloat (Finite (39 / 2))), (''longitude'', JFloat (Finite (- (397 / 4))))]"

definition gps_x3 :: "(string \<times> json) list" where
  "gps_x3 =
     [(''address'', JObj [(''id'', JStr ''X3'')]),
      (''speedMilesPerHour'', JInt 0), (''isEcuSpeed'', JBool False)]"


definition unit_of :: "string \<Rightarrow> (string \<times> json) list \<Rightarrow> json" where
  "unit_of n g = JObj [(''name'', JStr n), (''gps'', JObj g)]"

text \<open>A reply of the tag endpoint: one address with an identifier, two without.\<close>

definition tags0 :: "py_error + json" where
  "tags0 =
     Inr (JObj [(''data'', JObj [(''addresses'',
       JList [JObj [(''id'', JStr ''X1'')], JObj [(''name'', JStr ''yard'')],
              JObj [(''id'', JNull)]])])])"

text \<open>
  A template with a column heading in row 6 and a merged range in the first data row;
  the time of a run; the scenario as the provider's list and the row it must give; a run
  whose tag reply cannot be read, and a run of the scenario.
\<close>

definition template0 :: worksheet where
  "template0 =
     \<lparr>cells = (\<lambda>p. if p = (6, 1) then Some (empty_cell\<lparr>cvalue := JStr ''Unidad''\<rparr>)
                   else if p = (7, 2) then Some empty_cell
                   else if fst p = 7 \<and> 3 \<le> snd p \<and> snd p \<le> 8 then Some new_merged_cell
                   else None),
      merged = [\<lparr>min_row = 7, min_col = 2, max_row = 7, max_col = 8\<rparr>]\<rparr>"

text \<open>
  A template whose merged ranges overlap: B6:B8, which starts above the data rows and
  stays, and A7:B7, which line 186 unmerges.
\<close>

definition template_overlap :: worksheet where
  "template_overlap =
     \<lparr>cells = (\<lambda>p. if p = (6, 2) \<or> p = (7, 1) then Some empty_cell
                   else if p = (7, 2) \<or> p = (8, 2) then Some new_merged_cell
                   else None),
      merged = [\<lparr>min_row = 6, min_col = 2, max_row = 8, max_col = 2\<rparr>,
                \<lparr>min_row = 7, min_col = 1, max_row = 7, max_col = 2\<rparr>]\<rparr>"

definition now0 :: datetime where
  "now0 = \<lparr>instant = 0, year = 2025, month = 3, day = 9, hour = 7, minute = 5, second = 0\<rparr>"

definition scenario_a :: "json list" where
  "scenario_a = [unit_of ''U1'' gps_x1, unit_of ''U2'' gps_x2, unit_of ''U3'' gps_x3]"

definition row_x2 :: row where
  "row_x2 = \<lparr>Unidad = JStr ''U2'', Ubicacion = JStr ''Lat: 19.5, Lon: -99.25'',
             Estatus = ''DETENIDO''\<rparr>"

definition gps_x5 :: "(string \<times> json) list" where
  "gps_x5 =
     [(''address'', JObj [(''id'', JStr ''X5'')]),
      (''speedMilesPerHour'', JFloat (Finite (39 / 2))), (''isEcuSpeed'', JBool False),
      (''reverseGeo'', JObj [(''formattedLocation'', JStr ''Av. Reforma 1'')])]"

definition row_x5 :: row where
  "row_x5 = \<lparr>Unidad = JStr ''U5'', Ubicacion = JStr ''Av. Reforma 1'', Estatus = ''RUTA''\<rparr>"

definition scenario_b :: "json list" where
  "scenario_b =
     [unit_of ''U2'' gps_x2, unit_of ''U1'' gps_x1, unit_of ''U5'' gps_x5, unit_of ''U3'' gps_x3]"

text \<open>
  An observation in motion whose \<^verbatim>\<open>reverseGeo\<close> is \<^verbatim>\<open>null\<close>, one whose \<^verbatim>\<open>address\<close> is
  \<^verbatim>\<open>null\<close>, a reply of the tag endpoint with a number as identifier, and one whose
  \<^verbatim>\<open>addresses\<close> is the empty string.
\<close>

definition gps_x8 :: "(string \<times> json) list" where
  "gps_x8 =
     [(''address'', JObj [(''id'', JStr ''X8'')]),
      (''speedMilesPerHour'', JInt 5), (''isEcuSpeed'', JBool True), (''reverseGeo'', JNull)]"

definition gps_x9 :: "(string \<times> json) list" where
  "gps_x9 = [(''address'', JNull), (''speedMilesPerHour'', JInt 12)]"

definition tags_number :: "py_error + json" where
  "tags_number = Inr (JObj [(''data'', JObj [(''addresses'', JList [JObj [(''id'', JInt 7)]])])])"

definition tags_blank :: "py_error + json" where
  "tags_blank = Inr (JObj [(''data'', JObj [(''addresses'', JStr [])])])"

definition world1 :: world where
  "world1 =
     \<lparr>samsara_api_token = Some ''token'', tags_reply = tags0,
      vehicles_reply = Inr (JObj [(''data'', JList scenario_a)]),
      now_mx = now0,
      base_dir = ''/srv'', save_error = None, smtp_error = None, destinos = [''5215500000000''],
      media_reply = (\<lambda>k. Inr ''m''), template_reply = (\<lambda>k. Inr ''w''), remove_error = None\<rparr>"

definition state1 :: state where
  "state1 = \<lparr>files = [''/srv/Plantilla.xlsx'' \<mapsto> template0], logged = [], mails = [], chats = []\<rparr>"

definition world0 :: world where
  "world0 =
     \<lparr>samsara_api_token = Some ''token'', tags_reply = Inr (JObj [(''data'', JNull)]),
      vehicles_reply = Inr (JObj []),
      now_mx = \<lparr>instant = 0, year = 2025, month = 3, day = 9, hour = 7, minute = 5, second = 0\<rparr>,
      base_dir = ''/srv'', save_error = None, smtp_error = None, destinos = [''5215500000000''],
      media_reply = (\<lambda>k. Inr ''m''), template_reply = (\<lambda>k. Inr ''w''), remove_error = None\<rparr>"

definition state0 :: state where
  "state0 = \<lparr>files = Map.empty, logged = [], mails = [], chats = []\<rparr>"

text \<open>A run whose tag reply has the empty string as \<^verbatim>\<open>addresses\<close> and that meets no vehicle.\<close>

definition world_blank :: world where
  "world_blank = world1\<lparr>tags_reply := tags_blank, vehicles_reply := Inr (JObj [(''data'', JList [])])\<rparr>"

definition world_null :: world where
  "world_null = world1\<lparr>vehicles_reply := Inr (JObj [(''data'', JList [JNull, unit_of ''U2'' gps_x2])])\<rparr>"

section \<open>Properties\<close>

lemma and_then_Inl [simp]: "and_then (Inl e) f = Inl e"
  by (simp add: and_then_def)

lemma and_then_Inr [simp]: "and_then (Inr x) f = f x"
  by (simp add: and_then_def)

lemma and_then_eq_Inr: "and_then m f = Inr x \<longleftrightarrow> (\<exists>y. m = Inr y \<and> f y = Inr x)"
  by (cases m) auto

lemma and_then_eq_Inl:
  "and_then m f = Inl e \<longleftrightarrow> m = Inl e \<or> (\<exists>y. m = Inr y \<and> f y = Inl e)"
  by (cases m) auto

lemma py_get_obj [simp]:
  "py_get (JObj kvs) k d = Inr (case map_of kvs k of Some v \<Rightarrow> v | None \<Rightarrow> d)"
  by (simp add: py_get_def)

lemma py_get_Inr_obj: "py_get u k d = Inr v \<Longrightarrow> \<exists>kvs. u = JObj kvs"
  by (cases u) (simp_all add: py_get_def)

lemma on_record_error_obj:
  "py_get u k d = Inr v \<Longrightarrow> \<exists>entry. on_record_error L u = Inr entry"
  by (auto dest!: py_get_Inr_obj simp: on_record_error_def)

lemma num_of_JFloat: "num_of (JFloat f) = Some (if f = NegZero then Finite 0 else f)"
  by (cases f) simp_all

lemma key_eq_JNull: "key_eq JNull y \<longleftrightarrow> y = JNull"
  by (cases y) (auto simp: key_eq_def num_of_JFloat)

subsection \<open>The gates of one record\<close>

text \<open>
  Claim C1. Take an observation that reaches the motion gates: its record and its GPS
  block are dictionaries, the staleness gate and the exclusion gate let it through. With
  \<open>speed\<close> and \<open>ecu\<close> what lines 163 and 164 read (0 and \<^verbatim>\<open>False\<close> when the key is
  absent): speed 0 without the flag gives no row. Speed 0 with the flag, and any other
  speed whatever the flag, go on to the location derivation of lines 168 and 169, and
  give a row exactly when it does not raise: then the status is \<^verbatim>\<open>DETENIDO\<close> (stopped)
  for speed 0 with the flag and \<^verbatim>\<open>RUTA\<close> (in route) for any other speed. The derivation
  gives a location when \<^verbatim>\<open>reverseGeo\<close> is absent or a dictionary, and raises
  \<^verbatim>\<open>AttributeError\<close> when it is anything else, \<^verbatim>\<open>null\<close> included: then the observation
  gives no row.
\<close>

theorem motion_gates_status:
  assumes "py_get u ''gps'' (JObj []) = Inr gps"
    and "py_get gps ''time'' JNull = Inr t"
    and "stale L now t = Inr False"
    and "py_get gps ''address'' (JObj []) = Inr address"
    and "py_get address ''id'' JNull = Inr aid"
    and "py_in aid special = Inr False"
    and "py_get gps ''speedMilesPerHour'' (JInt 0) = Inr speed"
    and "py_get gps ''isEcuSpeed'' (JBool False) = Inr ecu"
    and "py_get u ''name'' (JStr ''Sin nombre'') = Inr name"
  shows "(eq_zero speed \<and> \<not> truthy ecu \<longrightarrow> process_record L now special u = Inr None)
       \<and> (eq_zero speed \<and> truthy ecu \<longrightarrow>
            process_record L now special u =
              and_then (location_of L gps) (\<lambda>location.
                Inr (Some \<lparr>Unidad = name, Ubicacion = location, Estatus = ''DETENIDO''\<rparr>)))
       \<and> (\<not> eq_zero speed \<longrightarrow>
            process_record L now special u =
              and_then (location_of L gps) (\<lambda>location.
                Inr (Some \<lparr>Unidad = name, Ubicacion = location, Estatus = ''RUTA''\<rparr>)))
       \<and> (\<forall>g. gps = JObj g \<and> map_of g ''isEcuSpeed'' = None \<longrightarrow> \<not> truthy ecu)
       \<and> (\<forall>g. gps = JObj g
            \<and> (map_of g ''reverseGeo'' = None \<or> (\<exists>rg. map_of g ''reverseGeo'' = Some (JObj rg))) \<longrightarrow>
            (\<exists>location. location_of L gps = Inr location))
       \<and> (\<forall>g rg. gps = JObj g \<and> map_of g ''reverseGeo'' = Some rg \<and> (\<forall>kvs. rg \<noteq> JObj kvs) \<longrightarrow>
            location_of L gps = Inl AttributeError
            \<and> (\<not> (eq_zero speed \<and> \<not> truthy ecu) \<longrightarrow>
                 process_record L now special u = Inl AttributeError))"
proof -
  have pr: "process_record L now special u = motion_gates L u gps"
    using assms(1-6) by (simp add: process_record_def exclusion_gate_def)
  have a: "eq_zero speed \<and> \<not> truthy ecu \<longrightarrow> process_record L now special u = Inr None"
    using assms(7,8) by (simp add: pr motion_gates_def)
  have b: "eq_zero speed \<and> truthy ecu \<longrightarrow>
            process_record L now special u =
              and_then (location_of L gps) (\<lambda>location.
                Inr (Some \<lparr>Unidad = name, Ubicacion = location, Estatus = ''DETENIDO''\<rparr>))"
    using assms(7-9) by (simp add: pr motion_gates_def)
  have c: "\<not> eq_zero speed \<longrightarrow>
            process_record L now special u =
              and_then (location_of L gps) (\<lambda>location.
                Inr (Some \<lparr>Unidad = name, Ubicacion = location, Estatus = ''RUTA''\<rparr>))"
    using assms(7-9) by (simp add: pr motion_gates_def)
  have d: "\<forall>g. gps = JObj g \<and> map_of g ''isEcuSpeed'' = None \<longrightarrow> \<not> truthy ecu"
    using assms(8) by auto
  have e: "\<forall>g. gps = JObj g
            \<and> (map_of g ''reverseGeo'' = None \<or> (\<exists>rg. map_of g ''reverseGeo'' = Some (JObj rg))) \<longrightarrow>
            (\<exists>location. location_of L gps = Inr location)"
    by (auto simp: location_of_def)
  have f: "\<forall>g rg. gps = JObj g \<and> map_of g ''reverseGeo'' = Some rg \<and> (\<forall>kvs. rg \<noteq> JObj kvs) \<longrightarrow>
            location_of L gps = Inl AttributeError
            \<and> (\<not> (eq_zero speed \<and> \<not> truthy ecu) \<longrightarrow>
                 process_record L now special u = Inl AttributeError)"
  proof (intro allI impI)
    fix g rg
    assume h: "gps = JObj g \<and> map_of g ''reverseGeo'' = Some rg \<and> (\<forall>kvs. rg \<noteq> JObj kvs)"
    then have "py_get rg ''formattedLocation'' JNull = Inl AttributeError"
      by (cases rg) (simp_all add: py_get_def)
    with h have l: "location_of L gps = Inl AttributeError"
      by (simp add: location_of_def)
    with assms(7,8) show "location_of L gps = Inl AttributeError
            \<and> (\<not> (eq_zero speed \<and> \<not> truthy ecu) \<longrightarrow>
                 process_record L now special u = Inl AttributeError)"
      by (simp add: pr motion_gates_def)
  qed
  from a b c d e f show ?thesis by blast
qed

theorem motion_gates_status_witness:
  "eq_zero (JInt 0) \<and> truthy (JBool True)
   \<and> location_of lib0 (JObj gps_x2) = Inr (JStr ''Lat: 19.5, Lon: -99.25'')
   \<and> process_record lib0 0 {JStr ''X1''} (unit_of ''U2'' gps_x2) =
       Inr (Some \<lparr>Unidad = JStr ''U2'', Ubicacion = JStr ''Lat: 19.5, Lon: -99.25'',
             Estatus = ''DETENIDO''\<rparr>)"
  using motion_gates_status [of "unit_of ''U2'' gps_x2" "JObj gps_x2" JNull lib0 0
      "JObj [(''id'', JStr ''X2'')]" "JStr ''X2''" "{JStr ''X1''}" "JInt 0" "JBool True"
      "JStr ''U2''"]
  by (simp add: unit_of_def gps_x2_def stale_def py_in_def hashable_def key_eq_def
      location_of_def lib0_def eq_zero_def)

text \<open>
  The claim as it stands gives a row to every observation that reaches the motion gates
  with a speed other than 0. The observation \<open>gps_x8\<close> reaches them at speed 5, and its
  \<^verbatim>\<open>reverseGeo\<close> is \<^verbatim>\<open>null\<close>: line 168 raises, and it gives no row.
\<close>

theorem motion_gates_status_counterexample:
  "py_get (unit_of ''U8'' gps_x8) ''gps'' (JObj []) = Inr (JObj gps_x8)
   \<and> py_get (JObj gps_x8) ''time'' JNull = Inr JNull
   \<and> stale lib0 0 JNull = Inr False
   \<and> py_get (JObj gps_x8) ''address'' (JObj []) = Inr (JObj [(''id'', JStr ''X8'')])
   \<and> py_in (JStr ''X8'') {JStr ''X1''} = Inr False
   \<and> py_get (JObj gps_x8) ''speedMilesPerHour'' (JInt 0) = Inr (JInt 5)
   \<and> \<not> eq_zero (JInt 5)
   \<and> process_record lib0 0 {JStr ''X1''} (unit_of ''U8'' gps_x8) = Inl AttributeError
   \<and> rows_of lib0 0 {JStr ''X1''} (unit_of ''U8'' gps_x8) = []"
  by (simp add: unit_of_def gps_x8_def stale_def py_in_def hashable_def key_eq_def
      process_record_def exclusion_gate_def motion_gates_def location_of_def eq_zero_def
      rows_of_def py_get_def)



text \<open>
  Claim C3. An observation whose address identifier is in the exclusion set gives no
  row, whatever its timestamp, speed and ECU flag: the body of the \<^verbatim>\<open>try\<close> never
  reaches \<^verbatim>\<open>results.append\<close>, and the loop goes on with \<open>results\<close> as it was.
\<close>

theorem exclusion_gate_drops:
  assumes "py_get u ''gps'' (JObj []) = Inr gps"
    and "py_get gps ''address'' (JObj []) = Inr address"
    and "py_get address ''id'' JNull = Inr aid"
    and "py_in aid special = Inr True"
  shows "(\<forall>r. process_record L now special u \<noteq> Inr (Some r))
       \<and> (\<exists>lg'. process_all L now special (u # us) results lg =
                  process_all L now special us results lg')"
proof -
  obtain g where g: "gps = JObj g"
    using assms(2) py_get_Inr_obj by blast
  have excl: "exclusion_gate L special u gps = Inr None"
    using assms by (simp add: exclusion_gate_def)
  have no_row: "process_record L now special u \<noteq> Inr (Some r)" for r
    using assms(1) excl g
    by (cases "stale L now (case map_of g ''time'' of None \<Rightarrow> JNull | Some v \<Rightarrow> v)")
       (auto simp: process_record_def)
  obtain entry where entry: "on_record_error L u = Inr entry"
    using on_record_error_obj [OF assms(1)] by blast
  have "\<exists>lg'. process_all L now special (u # us) results lg =
                  process_all L now special us results lg'"
  proof (cases "process_record L now special u")
    case (Inl e)
    then show ?thesis using entry by auto
  next
    case (Inr ro)
    then show ?thesis using no_row by (cases ro) auto
  qed
  then show ?thesis using no_row by blast
qed

theorem exclusion_gate_drops_witness:
  "py_in (JStr ''X1'') {JStr ''X1''} = Inr True
   \<and> process_record lib0 0 {JStr ''X1''} (unit_of ''U1'' gps_x1) = Inr None"
  using exclusion_gate_drops [of "unit_of ''U1'' gps_x1" "JObj gps_x1"
      "JObj [(''id'', JStr ''X1'')]" "JStr ''X1''" "{JStr ''X1''}" lib0 0 "[]" "[]" "[]"]
  by (simp add: unit_of_def gps_x1_def py_in_def hashable_def key_eq_def
      process_record_def exclusion_gate_def stale_def)

text \<open>
  Claim C4. For an observation that gives a row \<open>r\<close> and has no reverse-geocoded
  formatted address (the value read at line 168 is absent, \<^verbatim>\<open>None\<close> or empty), the
  location of the row is the text \<^verbatim>\<open>Lat: \<close>, the latitude as \<^verbatim>\<open>str\<close> writes it,
  \<^verbatim>\<open>, Lon: \<close> and the longitude as \<^verbatim>\<open>str\<close> writes it; the coordinates are what the GPS
  block holds, \<^verbatim>\<open>None\<close> when it holds none. Building the text never raises: without
  coordinates it is \<^verbatim>\<open>Lat: None, Lon: None\<close>.
\<close>

theorem location_fallback:
  assumes "process_record L now special u = Inr (Some r)"
    and "py_get u ''gps'' (JObj []) = Inr (JObj g)"
    and "py_get (JObj g) ''reverseGeo'' (JObj []) = Inr rg"
    and "py_get rg ''formattedLocation'' JNull = Inr formatted"
    and "\<not> truthy formatted"
    and "py_get (JObj g) ''latitude'' JNull = Inr lat"
    and "py_get (JObj g) ''longitude'' JNull = Inr lon"
  shows "location_of L (JObj g) = Inr (JStr (''Lat: '' @ py_str L lat @ '', Lon: '' @ py_str L lon))
       \<and> Ubicacion r = JStr (''Lat: '' @ py_str L lat @ '', Lon: '' @ py_str L lon)
       \<and> (lat = JNull \<and> lon = JNull \<longrightarrow> Ubicacion r = JStr ''Lat: None, Lon: None'')
       \<and> (\<forall>y x. lat = JInt y \<and> lon = JInt x \<longrightarrow>
            Ubicacion r = JStr (''Lat: '' @ show_int y @ '', Lon: '' @ show_int x))"
proof -
  have loc: "location_of L (JObj g) =
      Inr (JStr (''Lat: '' @ py_str L lat @ '', Lon: '' @ py_str L lon))"
    using assms(3-7) by (auto simp: location_of_def)
  have "Ubicacion r = JStr (''Lat: '' @ py_str L lat @ '', Lon: '' @ py_str L lon)"
    using assms(1,2) loc
    by (auto simp: process_record_def exclusion_gate_def motion_gates_def and_then_eq_Inr
        split: if_splits)
  with loc show ?thesis by auto
qed

theorem location_fallback_witness:
  "process_record lib0 0 {JStr ''X1''} (unit_of ''U5'' [(''speedMilesPerHour'', JInt 12)]) =
     Inr (Some \<lparr>Unidad = JStr ''U5'', Ubicacion = JStr ''Lat: None, Lon: None'',
           Estatus = ''RUTA''\<rparr>)
   \<and> \<not> truthy JNull
   \<and> Ubicacion \<lparr>Unidad = JStr ''U5'', Ubicacion = JStr ''Lat: None, Lon: None'',
        Estatus = ''RUTA''\<rparr> = JStr ''Lat: None, Lon: None''"
  using location_fallback [of lib0 0 "{JStr ''X1''}"
      "unit_of ''U5'' [(''speedMilesPerHour'', JInt 12)]"
      "\<lparr>Unidad = JStr ''U5'', Ubicacion = JStr ''Lat: None, Lon: None'', Estatus = ''RUTA''\<rparr>"
      "[(''speedMilesPerHour'', JInt 12)]" "JObj []" JNull JNull JNull]
  by (simp add: unit_of_def process_record_def exclusion_gate_def motion_gates_def stale_def
      py_in_def hashable_def key_eq_def location_of_def eq_zero_def)

subsection \<open>The exclusion set\<close>

lemma py_getitem_of_get:
  "py_get a k JNull = Inr v \<Longrightarrow> truthy v \<Longrightarrow> py_getitem a k = Inr v"
  by (cases a) (auto simp: py_get_def py_getitem_def split: option.splits)

lemma collect_ids_truthy:
  "collect_ids as = Inr ids \<Longrightarrow> x \<in> set ids \<Longrightarrow> truthy x \<and> hashable x"
proof (induction as arbitrary: ids)
  case Nil
  then show ?case by simp
next
  case (Cons a rest)
  from Cons.prems(1) obtain v where v: "py_get a ''id'' JNull = Inr v"
    by (auto simp: and_then_eq_Inr)
  show ?case
  proof (cases "truthy v")
    case True
    then have "py_getitem a ''id'' = Inr v"
      using v by (rule py_getitem_of_get [rotated])
    with Cons.prems(1) v True obtain ws where
      "hashable v" "collect_ids rest = Inr ws" "ids = v # ws"
      by (auto simp: and_then_eq_Inr split: if_splits)
    with Cons.IH [of ws] Cons.prems(2) True show ?thesis by auto
  next
    case False
    with Cons.prems(1) v have "collect_ids rest = Inr ids" by simp
    with Cons.IH Cons.prems(2) show ?thesis by blast
  qed
qed

lemma predefined_truthy: "s \<in> set predefined_special \<Longrightarrow> s \<noteq> []"
  by (auto simp: predefined_special_def)

lemma special_truthy:
  assumes "special_address_ids reply = Inr special" and "x \<in> special"
  shows "truthy x \<and> hashable x"
proof -
  from assms(1) obtain ids where ids: "new_ids reply = Inr ids"
    and sp: "special = JStr ` set predefined_special \<union> set ids"
    by (auto simp: special_address_ids_def and_then_eq_Inr)
  from ids obtain as where "collect_ids as = Inr ids"
    by (auto simp: new_ids_def and_then_eq_Inr)
  then have "y \<in> set ids \<Longrightarrow> truthy y \<and> hashable y" for y
    by (rule collect_ids_truthy)
  with assms(2) sp show ?thesis
    by (auto simp: hashable_def dest: predefined_truthy)
qed

text \<open>
  Claim C10. Whatever set the builder of lines 108 to 134 returns, its members are
  true values: none is \<^verbatim>\<open>None\<close> and none is the empty string; they are all non-empty
  strings when the identifiers of the fetched records are strings. So for a GPS block
  with no \<^verbatim>\<open>address\<close> key, or with an address dictionary whose \<^verbatim>\<open>id\<close> is absent or
  \<^verbatim>\<open>null\<close>, the identifier read at line 161 is \<^verbatim>\<open>None\<close>, the membership test is false,
  and the observation goes on to the motion gates. An \<^verbatim>\<open>address\<close> that is there and is
  not a dictionary (\<^verbatim>\<open>null\<close> included) makes line 161 raise \<^verbatim>\<open>AttributeError\<close>, and the
  observation does not reach the motion gates.
\<close>

theorem missing_address_id_not_excluded:
  assumes "special_address_ids reply = Inr special"
  shows "(\<forall>x\<in>special. truthy x \<and> x \<noteq> JNull \<and> x \<noteq> JStr [])
       \<and> (\<forall>ids. new_ids reply = Inr ids \<and> (\<forall>v\<in>set ids. \<exists>s. v = JStr s) \<longrightarrow>
            (\<forall>x\<in>special. \<exists>s. x = JStr s \<and> s \<noteq> []))
       \<and> py_in JNull special = Inr False
       \<and> (map_of g ''address'' = None
            \<or> (\<exists>a. map_of g ''address'' = Some (JObj a)
                  \<and> (map_of a ''id'' = None \<or> map_of a ''id'' = Some JNull)) \<longrightarrow>
            exclusion_gate L special u (JObj g) = motion_gates L u (JObj g))
       \<and> (\<forall>v. map_of g ''address'' = Some v \<and> (\<forall>a. v \<noteq> JObj a) \<longrightarrow>
            exclusion_gate L special u (JObj g) = Inl AttributeError)"
proof -
  have tr: "truthy x" if "x \<in> special" for x
    using special_truthy [OF assms that] by simp
  then have a: "\<forall>x\<in>special. truthy x \<and> x \<noteq> JNull \<and> x \<noteq> JStr []"
    by force
  have s: "\<forall>ids. new_ids reply = Inr ids \<and> (\<forall>v\<in>set ids. \<exists>s. v = JStr s) \<longrightarrow>
            (\<forall>x\<in>special. \<exists>s. x = JStr s \<and> s \<noteq> [])"
  proof (intro allI impI ballI)
    fix ids x
    assume h: "new_ids reply = Inr ids \<and> (\<forall>v\<in>set ids. \<exists>s. v = JStr s)" and x: "x \<in> special"
    with assms have "special = JStr ` set predefined_special \<union> set ids"
      by (auto simp: special_address_ids_def)
    with h x obtain s where "x = JStr s" by auto
    with a x show "\<exists>s. x = JStr s \<and> s \<noteq> []" by auto
  qed
  have "\<not> key_eq JNull y" if "y \<in> special" for y
    using tr [OF that] by (auto simp: key_eq_JNull)
  then have b: "py_in JNull special = Inr False"
    by (auto simp: py_in_def hashable_def)
  have c: "map_of g ''address'' = None
            \<or> (\<exists>a. map_of g ''address'' = Some (JObj a)
                  \<and> (map_of a ''id'' = None \<or> map_of a ''id'' = Some JNull)) \<longrightarrow>
            exclusion_gate L special u (JObj g) = motion_gates L u (JObj g)"
    using b by (auto simp: exclusion_gate_def)
  have d: "\<forall>v. map_of g ''address'' = Some v \<and> (\<forall>a. v \<noteq> JObj a) \<longrightarrow>
            exclusion_gate L special u (JObj g) = Inl AttributeError"
  proof (intro allI impI)
    fix v assume h: "map_of g ''address'' = Some v \<and> (\<forall>a. v \<noteq> JObj a)"
    then have "py_get v ''id'' JNull = Inl AttributeError"
      by (cases v) (simp_all add: py_get_def)
    with h show "exclusion_gate L special u (JObj g) = Inl AttributeError"
      by (simp add: exclusion_gate_def)
  qed
  from a s b c d show ?thesis by blast
qed

theorem missing_address_id_not_excluded_witness:
  "special_address_ids tags0 = Inr (JStr ` set predefined_special \<union> set [JStr ''X1''])
   \<and> map_of [(''address'', JObj [(''name'', JStr ''yard'')]), (''speedMilesPerHour'', JInt 12)]
       ''address'' = Some (JObj [(''name'', JStr ''yard'')])
   \<and> map_of [(''name'', JStr ''yard'')] ''id'' = None
   \<and> py_in JNull (JStr ` set predefined_special \<union> set [JStr ''X1'']) = Inr False
   \<and> exclusion_gate lib0 (JStr ` set predefined_special \<union> set [JStr ''X1''])
       (unit_of ''U6'' [])
       (JObj [(''address'', JObj [(''name'', JStr ''yard'')]), (''speedMilesPerHour'', JInt 12)]) =
     motion_gates lib0 (unit_of ''U6'' [])
       (JObj [(''address'', JObj [(''name'', JStr ''yard'')]), (''speedMilesPerHour'', JInt 12)])
   \<and> new_ids tags0 = Inr [JStr ''X1'']
   \<and> (\<exists>s. JStr ''254792506'' = JStr s \<and> s \<noteq> [])"
proof -
  have ids: "new_ids tags0 = Inr [JStr ''X1'']"
    by (simp add: new_ids_def tags0_def py_getitem_def hashable_def)
  have reply: "special_address_ids tags0 =
      Inr (JStr ` set predefined_special \<union> set [JStr ''X1''])"
    by (simp add: special_address_ids_def ids)
  have m: "JStr ''254792506'' \<in> JStr ` set predefined_special \<union> set [JStr ''X1'']"
    by (simp add: predefined_special_def)
  note t = missing_address_id_not_excluded [OF reply,
        of "[(''address'', JObj [(''name'', JStr ''yard'')]), (''speedMilesPerHour'', JInt 12)]"
        lib0 "unit_of ''U6'' []"]
  from t ids m have "\<exists>s. JStr ''254792506'' = JStr s \<and> s \<noteq> []"
    by simp
  with t reply ids show ?thesis
    by simp
qed

text \<open>
  The claim as it stands has every observation without an address object go on to the
  motion gates, and only non-empty strings in the set. The observation \<open>gps_x9\<close>, whose
  \<^verbatim>\<open>address\<close> is \<^verbatim>\<open>null\<close>, would pass the motion gates at speed 12, and never reaches
  them: line 161 raises and it gives no row. And the reply \<open>tags_number\<close>, whose record
  has the number 7 as identifier, puts that number in the set.
\<close>

theorem missing_address_id_not_excluded_counterexample:
  "py_get (JObj gps_x9) ''address'' (JObj []) = Inr JNull
   \<and> exclusion_gate lib0 {JStr ''X1''} (unit_of ''U9'' gps_x9) (JObj gps_x9) = Inl AttributeError
   \<and> motion_gates lib0 (unit_of ''U9'' gps_x9) (JObj gps_x9) =
       Inr (Some \<lparr>Unidad = JStr ''U9'', Ubicacion = JStr ''Lat: None, Lon: None'',
             Estatus = ''RUTA''\<rparr>)
   \<and> process_record lib0 0 {JStr ''X1''} (unit_of ''U9'' gps_x9) = Inl AttributeError
   \<and> rows_of lib0 0 {JStr ''X1''} (unit_of ''U9'' gps_x9) = []
   \<and> special_address_ids tags_number = Inr (JStr ` set predefined_special \<union> {JInt 7})
   \<and> JInt 7 \<in> JStr ` set predefined_special \<union> {JInt 7}"
  by (simp add: unit_of_def gps_x9_def stale_def process_record_def exclusion_gate_def
      motion_gates_def location_of_def eq_zero_def rows_of_def py_get_def
      special_address_ids_def new_ids_def tags_number_def py_getitem_def hashable_def)

subsection \<open>The loop over the records\<close>

text \<open>
  Claim C8 asks that no failure of one record ends the run. A record that is not a
  dictionary (\<^verbatim>\<open>None\<close>, a string, a list) raises at line 155; the handler of line 176
  then calls \<^verbatim>\<open>u.get('name')\<close> on it, which raises again outside any \<^verbatim>\<open>try\<close>: the
  loop ends there with the exception, whatever records follow, and the run of a list
  that starts with \<^verbatim>\<open>None\<close> ends with that exception uncaught.
\<close>

theorem non_dict_record_aborts:
  "process_all L now special (JNull # us) results lg = (Inl AttributeError, lg)
   \<and> process_all L now special (JStr s # us) results lg = (Inl AttributeError, lg)
   \<and> process_all L now special (JList xs # us) results lg = (Inl AttributeError, lg)
   \<and> fst (main L world_null s0) = Uncaught AttributeError"
proof -
  have rec: "process_all L now special (JNull # us) results lg = (Inl AttributeError, lg)"
    for now special us results lg
    by (simp add: process_record_def on_record_error_def py_get_def)
  obtain special where sp: "special_address_ids (tags_reply world_null) = Inr special"
    by (simp add: world_null_def world1_def tags0_def special_address_ids_def new_ids_def
        py_getitem_def hashable_def)
  have tk: "\<not> token_missing world_null"
    by (simp add: world_null_def world1_def token_missing_def)
  have vs: "and_then (vehicles_reply world_null) (\<lambda>body. py_get body ''data'' (JList [])) =
      Inr (JList [JNull, unit_of ''U2'' gps_x2])"
    by (simp add: world_null_def world1_def)
  have "fst (main L world_null s0) = Uncaught AttributeError"
    by (simp add: main_def sp tk vs rec del: process_all.simps)
  then show ?thesis
    by (simp add: process_record_def on_record_error_def py_get_def)
qed

text \<open>
  What holds of the records that are dictionaries: an exception raised in the body of the
  \<^verbatim>\<open>try\<close> is logged with the name of the unit, the record gives no row, and the loop goes
  on with the next record.
\<close>

theorem dict_record_isolated:
  "process_record L now special (JObj kvs) = Inl e \<Longrightarrow>
   process_all L now special (JObj kvs # us) results lg =
     process_all L now special us results
       (lg @ [ProcesandoUnidad
                (py_str L (case map_of kvs ''name'' of None \<Rightarrow> JNull | Some v \<Rightarrow> v))])"
  by (simp add: on_record_error_def)

theorem dict_record_isolated_witness:
  "process_record lib0 0 {JStr ''X1''} (JObj [(''name'', JStr ''U7''), (''gps'', JNull)]) =
     Inl AttributeError
   \<and> process_all lib0 0 {JStr ''X1''}
       [JObj [(''name'', JStr ''U7''), (''gps'', JNull)], unit_of ''U2'' gps_x2] [] [] =
     (Inr [row_x2], [ProcesandoUnidad ''U7''])"
proof -
  have e: "process_record lib0 0 {JStr ''X1''} (JObj [(''name'', JStr ''U7''), (''gps'', JNull)]) =
     Inl AttributeError"
    by (simp add: process_record_def py_get_def)
  have "process_all lib0 0 {JStr ''X1''} [unit_of ''U2'' gps_x2] [] [ProcesandoUnidad ''U7''] =
     (Inr [row_x2], [ProcesandoUnidad ''U7''])"
    by (simp add: row_x2_def unit_of_def gps_x2_def process_record_def exclusion_gate_def
        motion_gates_def stale_def py_in_def hashable_def key_eq_def location_of_def lib0_def
        eq_zero_def)
  with e dict_record_isolated [OF e, of "[unit_of ''U2'' gps_x2]" "[]" "[]"]
  show ?thesis by simp
qed

subsection \<open>The builder of the exclusion set and the end of the run\<close>

lemma collect_ids_ok:
  "\<forall>a\<in>set as. \<exists>v. py_get a ''id'' JNull = Inr v \<and> hashable v \<Longrightarrow>
   \<exists>ids. collect_ids as = Inr ids
     \<and> set ids = {v. truthy v \<and> (\<exists>a\<in>set as. py_get a ''id'' JNull = Inr v)}"
proof (induction as)
  case Nil
  then show ?case by simp
next
  case (Cons a rest)
  from Cons.prems obtain v where v: "py_get a ''id'' JNull = Inr v" "hashable v"
    by auto
  from Cons obtain ids where ids: "collect_ids rest = Inr ids"
    "set ids = {v. truthy v \<and> (\<exists>a\<in>set rest. py_get a ''id'' JNull = Inr v)}"
    by auto
  show ?case
  proof (cases "truthy v")
    case True
    then have "py_getitem a ''id'' = Inr v"
      using v(1) by (rule py_getitem_of_get [rotated])
    then have "collect_ids (a # rest) = Inr (v # ids)"
      using v True ids(1) by simp
    moreover have "set (v # ids) =
        {x. truthy x \<and> (\<exists>b\<in>set (a # rest). py_get b ''id'' JNull = Inr x)}"
      using v(1) True ids(2) by auto
    ultimately show ?thesis by blast
  next
    case False
    then have "collect_ids (a # rest) = Inr ids"
      using v ids(1) by simp
    moreover have "set ids =
        {x. truthy x \<and> (\<exists>b\<in>set (a # rest). py_get b ''id'' JNull = Inr x)}"
      using v(1) False ids(2) by auto
    ultimately show ?thesis by blast
  qed
qed

lemma collect_ids_bad:
  "a \<in> set as \<Longrightarrow>
   (\<forall>kvs. a \<noteq> JObj kvs) \<or> (\<exists>v. py_get a ''id'' JNull = Inr v \<and> truthy v \<and> \<not> hashable v) \<Longrightarrow>
   \<exists>e. collect_ids as = Inl e"
proof (induction as)
  case Nil
  then show ?case by simp
next
  case (Cons b rest)
  show ?case
  proof (cases "py_get b ''id'' JNull")
    case (Inl e)
    then show ?thesis by simp
  next
    case (Inr v)
    then obtain kvs where b: "b = JObj kvs"
      using py_get_Inr_obj by blast
    show ?thesis
    proof (cases "a = b")
      case True
      with Cons.prems(2) Inr b have bad: "truthy v" "\<not> hashable v"
        by auto
      then have "py_getitem b ''id'' = Inr v"
        using Inr py_getitem_of_get by blast
      then show ?thesis using Inr bad by simp
    next
      case False
      with Cons obtain e where e: "collect_ids rest = Inl e" by auto
      show ?thesis
      proof (cases "truthy v")
        case True
        then have "py_getitem b ''id'' = Inr v"
          using Inr py_getitem_of_get by blast
        then show ?thesis using Inr True e by simp
      next
        case False
        then show ?thesis using Inr e by simp
      qed
    qed
  qed
qed

lemma files_add_log [simp]: "files (add_log s e) = files s"
  and mails_add_log [simp]: "mails (add_log s e) = mails s"
  and chats_add_log [simp]: "chats (add_log s e) = chats s"
  by (simp_all add: add_log_def)

text \<open>
  Claim C5. When the reply of the tag endpoint is a dictionary whose \<^verbatim>\<open>data\<close> is a
  dictionary (or absent) and whose \<^verbatim>\<open>addresses\<close> (a list, or absent) iterates over
  dictionaries with hashable identifiers, the builder returns the sixteen static
  identifiers together with the identifiers the records carry; a record with no
  identifier, or a \<^verbatim>\<open>None\<close> or empty one, is passed over without error. An \<^verbatim>\<open>addresses\<close>
  that is the empty string or the empty dictionary iterates over nothing, as the empty
  list does: the builder then returns the static identifiers alone and the run goes on.
  When the fetch raises, or the reply is not a dictionary, or \<^verbatim>\<open>data\<close> is not a
  dictionary, or \<^verbatim>\<open>addresses\<close> cannot be iterated, or a record is not a dictionary or
  carries an unhashable identifier, the builder raises. Whenever the builder raises, the
  run ends with exit status 1 and has written no file and sent nothing.
\<close>

theorem exclusion_set_builder:
  "(\<forall>body d x as.
      py_get body ''data'' (JObj []) = Inr d \<and> py_get d ''addresses'' (JList []) = Inr x
      \<and> py_iter x = Inr as
      \<and> (\<forall>a\<in>set as. \<exists>v. py_get a ''id'' JNull = Inr v \<and> hashable v) \<longrightarrow>
      special_address_ids (Inr body) =
        Inr (JStr ` set predefined_special
             \<union> {v. truthy v \<and> (\<exists>a\<in>set as. py_get a ''id'' JNull = Inr v)}))
   \<and> (\<forall>body d x.
        py_get body ''data'' (JObj []) = Inr d \<and> py_get d ''addresses'' (JList []) = Inr x
        \<and> (x = JList [] \<or> x = JStr [] \<or> x = JObj []) \<longrightarrow>
        special_address_ids (Inr body) = Inr (JStr ` set predefined_special))
   \<and> (\<forall>e. special_address_ids (Inl e) = Inl e)
   \<and> (\<forall>body. (\<forall>kvs. body \<noteq> JObj kvs) \<longrightarrow> special_address_ids (Inr body) = Inl AttributeError)
   \<and> (\<forall>body d. py_get body ''data'' (JObj []) = Inr d \<and> (\<forall>kvs. d \<noteq> JObj kvs) \<longrightarrow>
        special_address_ids (Inr body) = Inl AttributeError)
   \<and> (\<forall>body d x e. py_get body ''data'' (JObj []) = Inr d
        \<and> py_get d ''addresses'' (JList []) = Inr x \<and> py_iter x = Inl e \<longrightarrow>
        special_address_ids (Inr body) = Inl e)
   \<and> (\<forall>body d x as a. py_get body ''data'' (JObj []) = Inr d
        \<and> py_get d ''addresses'' (JList []) = Inr x \<and> py_iter x = Inr as \<and> a \<in> set as
        \<and> ((\<forall>kvs. a \<noteq> JObj kvs)
            \<or> (\<exists>v. py_get a ''id'' JNull = Inr v \<and> truthy v \<and> \<not> hashable v)) \<longrightarrow>
        (\<exists>e. special_address_ids (Inr body) = Inl e))
   \<and> (\<forall>e. special_address_ids (tags_reply w) = Inl e \<longrightarrow>
        fst (main L w s0) = SysExit 1
        \<and> files (snd (main L w s0)) = files s0
        \<and> mails (snd (main L w s0)) = mails s0
        \<and> chats (snd (main L w s0)) = chats s0)"
proof (intro conjI allI impI)
  fix body d x as
  assume h: "py_get body ''data'' (JObj []) = Inr d
      \<and> py_get d ''addresses'' (JList []) = Inr x \<and> py_iter x = Inr as
      \<and> (\<forall>a\<in>set as. \<exists>v. py_get a ''id'' JNull = Inr v \<and> hashable v)"
  then obtain ids where "collect_ids as = Inr ids"
    "set ids = {v. truthy v \<and> (\<exists>a\<in>set as. py_get a ''id'' JNull = Inr v)}"
    using collect_ids_ok [of as] by blast
  with h show "special_address_ids (Inr body) =
        Inr (JStr ` set predefined_special
             \<union> {v. truthy v \<and> (\<exists>a\<in>set as. py_get a ''id'' JNull = Inr v)})"
    by (simp add: special_address_ids_def new_ids_def)
next
  fix body d x
  assume h: "py_get body ''data'' (JObj []) = Inr d
      \<and> py_get d ''addresses'' (JList []) = Inr x
      \<and> (x = JList [] \<or> x = JStr [] \<or> x = JObj [])"
  then have "py_iter x = Inr []" by auto
  with h show "special_address_ids (Inr body) = Inr (JStr ` set predefined_special)"
    by (simp add: special_address_ids_def new_ids_def)
next
  fix e show "special_address_ids (Inl e) = Inl e"
    by (simp add: special_address_ids_def new_ids_def)
next
  fix body :: json assume "\<forall>kvs. body \<noteq> JObj kvs"
  then show "special_address_ids (Inr body) = Inl AttributeError"
    by (cases body) (simp_all add: special_address_ids_def new_ids_def py_get_def)
next
  fix body d :: json
  assume "py_get body ''data'' (JObj []) = Inr d \<and> (\<forall>kvs. d \<noteq> JObj kvs)"
  then show "special_address_ids (Inr body) = Inl AttributeError"
    by (cases d) (simp_all add: special_address_ids_def new_ids_def py_get_def)
next
  fix body d x e
  assume "py_get body ''data'' (JObj []) = Inr d
        \<and> py_get d ''addresses'' (JList []) = Inr x \<and> py_iter x = Inl e"
  then show "special_address_ids (Inr body) = Inl e"
    by (simp add: special_address_ids_def new_ids_def)
next
  fix body d x as a
  assume h: "py_get body ''data'' (JObj []) = Inr d
        \<and> py_get d ''addresses'' (JList []) = Inr x \<and> py_iter x = Inr as \<and> a \<in> set as
        \<and> ((\<forall>kvs. a \<noteq> JObj kvs)
            \<or> (\<exists>v. py_get a ''id'' JNull = Inr v \<and> truthy v \<and> \<not> hashable v))"
  then obtain e where "collect_ids as = Inl e"
    using collect_ids_bad [of a as] by blast
  with h show "\<exists>e. special_address_ids (Inr body) = Inl e"
    by (simp add: special_address_ids_def new_ids_def)
next
  fix e assume "special_address_ids (tags_reply w) = Inl e"
  then have m: "main L w s0 =
      (SysExit 1, add_log (add_log s0 Inicio) (if token_missing w then FaltaToken else ErrorTags))"
    by (simp add: main_def)
  show "fst (main L w s0) = SysExit 1" by (simp add: m)
  show "files (snd (main L w s0)) = files s0" by (simp add: m)
  show "mails (snd (main L w s0)) = mails s0" by (simp add: m)
  show "chats (snd (main L w s0)) = chats s0" by (simp add: m)
qed

theorem exclusion_set_builder_witness:
  "special_address_ids tags0 = Inr (JStr ` set predefined_special \<union> {JStr ''X1''})
   \<and> special_address_ids tags_blank = Inr (JStr ` set predefined_special)
   \<and> special_address_ids (tags_reply world0) = Inl AttributeError
   \<and> fst (main lib0 world0 state0) = SysExit 1
   \<and> files (snd (main lib0 world0 state0)) = files state0"
proof -
  have a: "{v. truthy v \<and> (\<exists>a\<in>set [JObj [(''id'', JStr ''X1'')], JObj [(''name'', JStr ''yard'')],
              JObj [(''id'', JNull)]]. py_get a ''id'' JNull = Inr v)} = {JStr ''X1''}"
    by auto
  have b: "special_address_ids (tags_reply world0) = Inl AttributeError"
    by (simp add: world0_def special_address_ids_def new_ids_def py_get_def)
  note t = exclusion_set_builder [of world0 lib0 state0]
  from t [THEN conjunct1, rule_format, of "JObj [(''data'', JObj [(''addresses'',
       JList [JObj [(''id'', JStr ''X1'')], JObj [(''name'', JStr ''yard'')],
              JObj [(''id'', JNull)]])])]" "JObj [(''addresses'',
       JList [JObj [(''id'', JStr ''X1'')], JObj [(''name'', JStr ''yard'')],
              JObj [(''id'', JNull)]])]" "JList [JObj [(''id'', JStr ''X1'')],
              JObj [(''name'', JStr ''yard'')], JObj [(''id'', JNull)]]"
       "[JObj [(''id'', JStr ''X1'')], JObj [(''name'', JStr ''yard'')],
              JObj [(''id'', JNull)]]"]
  have c: "special_address_ids tags0 = Inr (JStr ` set predefined_special \<union> {JStr ''X1''})"
    unfolding a by (simp add: tags0_def hashable_def)
  from t [THEN conjunct2, THEN conjunct1, rule_format,
      of "JObj [(''data'', JObj [(''addresses'', JStr [])])]"
         "JObj [(''addresses'', JStr [])]" "JStr []"]
  have d: "special_address_ids tags_blank = Inr (JStr ` set predefined_special)"
    by (simp add: tags_blank_def)
  from t b have "fst (main lib0 world0 state0) = SysExit 1
      \<and> files (snd (main lib0 world0 state0)) = files state0"
    by blast
  with b c d show ?thesis by blast
qed

subsection \<open>The rows of the report\<close>

lemma value_at_cells: "cells ws' q = cells ws q \<Longrightarrow> value_at ws' q = value_at ws q"
  by (simp add: value_at_def get_cell_def)

lemma set_value_at:
  "set_value ws p v = Inr ws' \<Longrightarrow> bind_value v = Inr (value_at ws' p)"
  by (auto simp: set_value_def value_at_def get_cell_def and_then_eq_Inr split: if_splits)

lemma set_value_other:
  "set_value ws p v = Inr ws' \<Longrightarrow> q \<noteq> p \<Longrightarrow> value_at ws' q = value_at ws q"
  by (auto simp: set_value_def and_then_eq_Inr split: if_splits intro!: value_at_cells)

lemma ws_cell_at:
  "ws_cell ws p v = Inr ws' \<Longrightarrow> v \<noteq> JNull \<Longrightarrow> bind_value v = Inr (value_at ws' p)"
  by (auto simp: ws_cell_def dest: set_value_at split: if_splits)

lemma ws_cell_null: "ws_cell ws p JNull = Inr ws' \<Longrightarrow> value_at ws' q = value_at ws q"
  by (auto simp: ws_cell_def value_at_def get_cell_def)

lemma ws_cell_other:
  "ws_cell ws p v = Inr ws' \<Longrightarrow> q \<noteq> p \<Longrightarrow> value_at ws' q = value_at ws q"
proof (cases "v = JNull")
  case True
  assume "ws_cell ws p v = Inr ws'"
  with True show ?thesis by (simp add: ws_cell_null [of ws p ws' q])
next
  case False
  assume "ws_cell ws p v = Inr ws'" and "q \<noteq> p"
  with False show ?thesis by (simp add: ws_cell_def set_value_other)
qed

lemma value_at_set_border [simp]: "value_at (set_border ws p) q = value_at ws q"
  by (simp add: set_border_def value_at_def get_cell_def)

lemma value_at_set_colours [simp]: "value_at (set_colours ws p bg fg) q = value_at ws q"
  by (simp add: set_colours_def value_at_def get_cell_def)

lemma value_at_merge_cells:
  "q \<notin> set (tl (range_cells r)) \<Longrightarrow> value_at (merge_cells ws r) q = value_at ws q"
  by (simp add: merge_cells_def value_at_def get_cell_def)

lemma write_location_Inr:
  "write_location ws i loc cols = Inr ws' \<Longrightarrow>
   (\<forall>q. q \<noteq> (i, 2) \<or> 2 \<notin> set cols \<or> loc = JNull \<longrightarrow> value_at ws' q = value_at ws q)
   \<and> (2 \<in> set cols \<and> loc \<noteq> JNull \<longrightarrow> bind_value loc = Inr (value_at ws' (i, 2)))"
proof (induction cols arbitrary: ws)
  case Nil
  then show ?case by simp
next
  case (Cons col cols)
  from Cons.prems obtain ws1 where
    w1: "ws_cell ws (i, col) (if col = 2 then loc else JNull) = Inr ws1"
    and w2: "write_location (set_border ws1 (i, col)) i loc cols = Inr ws'"
    by (auto simp: and_then_eq_Inr)
  note ih = Cons.IH [OF w2]
  have after: "value_at ws' q = value_at ws1 q"
    if "q \<noteq> (i, 2) \<or> 2 \<notin> set cols \<or> loc = JNull" for q
    using ih that by (cases q) auto
  show ?case
  proof (cases "col = 2")
    case True
    from w1 True have w1': "ws_cell ws (i, 2) loc = Inr ws1" by simp
    have c1: "loc \<noteq> JNull \<Longrightarrow> bind_value loc = Inr (value_at ws1 (i, 2))"
      using ws_cell_at [OF w1'] by simp
    have c2: "loc = JNull \<Longrightarrow> value_at ws1 q = value_at ws q" for q
      using w1' ws_cell_null by blast
    have c3: "q \<noteq> (i, 2) \<Longrightarrow> value_at ws1 q = value_at ws q" for q
      using ws_cell_other [OF w1'] by simp
    have a: "value_at ws' q = value_at ws q"
      if "q \<noteq> (i, 2) \<or> 2 \<notin> set (col # cols) \<or> loc = JNull" for q
    proof -
      from that True have h: "q \<noteq> (i, 2) \<or> loc = JNull" by simp
      then have "value_at ws' q = value_at ws1 q" by (intro after) auto
      moreover have "value_at ws1 q = value_at ws q"
        using h c2 [of q] c3 [of q] by auto
      ultimately show ?thesis by simp
    qed
    have b: "bind_value loc = Inr (value_at ws' (i, 2))" if "loc \<noteq> JNull"
    proof (cases "2 \<in> set cols")
      case True
      with ih that show ?thesis by simp
    next
      case False
      then have "value_at ws' (i, 2) = value_at ws1 (i, 2)" by (intro after) simp
      with c1 that show ?thesis by simp
    qed
    from a b show ?thesis by blast
  next
    case False
    with w1 have same: "value_at ws1 q = value_at ws q" for q
      using ws_cell_null [of ws "(i, col)" ws1 q] by simp
    have a: "value_at ws' q = value_at ws q"
      if "q \<noteq> (i, 2) \<or> 2 \<notin> set (col # cols) \<or> loc = JNull" for q
    proof -
      from that False have "q \<noteq> (i, 2) \<or> 2 \<notin> set cols \<or> loc = JNull" by simp
      then have "value_at ws' q = value_at ws1 q" by (rule after)
      with same show ?thesis by simp
    qed
    have b: "bind_value loc = Inr (value_at ws' (i, 2))" if "2 \<in> set (col # cols)" "loc \<noteq> JNull"
      using ih that False by simp
    from a b show ?thesis by blast
  qed
qed

lemma row_range_cells:
  "tl (range_cells \<lparr>min_row = i, min_col = 2, max_row = i, max_col = 8\<rparr>) =
     [(i, 3), (i, 4), (i, 5), (i, 6), (i, 7), (i, 8)]"
proof -
  have a: "[2..<9] = [2, 3, 4, 5, 6, 7, 8 :: nat]" by (simp add: upt_rec)
  have b: "[i..<Suc i] = [i]" by simp
  show ?thesis by (simp add: range_cells_def a b)
qed

lemma write_row_Inr:
  assumes "write_row ws i r = Inr ws'"
  shows "(\<forall>q. fst q \<noteq> i \<longrightarrow> value_at ws' q = value_at ws q)
       \<and> (Unidad r \<noteq> JNull \<longrightarrow> bind_value (Unidad r) = Inr (value_at ws' (i, 1)))
       \<and> (Ubicacion r \<noteq> JNull \<longrightarrow> bind_value (Ubicacion r) = Inr (value_at ws' (i, 2)))
       \<and> bind_value (JStr (Estatus r)) = Inr (value_at ws' (i, 9))"
proof -
  let ?rg = "\<lparr>min_row = i, min_col = 2, max_row = i, max_col = 8\<rparr>"
  from assms obtain ws1 ws2 ws3 where
    w1: "ws_cell ws (i, 1) (Unidad r) = Inr ws1"
    and w2: "write_location (merge_cells (set_border ws1 (i, 1)) ?rg) i (Ubicacion r) [2..<9]
              = Inr ws2"
    and w3: "ws_cell ws2 (i, 9) (JStr (Estatus r)) = Inr ws3"
    and w4: "ws' = (if Estatus r = ''DETENIDO''
            then set_colours (set_border ws3 (i, 9)) (i, 9) ''FFC7CE'' ''9C0006''
            else set_colours (set_border ws3 (i, 9)) (i, 9) ''C6EFCE'' ''006100'')"
    by (auto simp: write_row_def and_then_eq_Inr)
  let ?m = "merge_cells (set_border ws1 (i, 1)) ?rg"
  have v': "value_at ws' q = value_at ws3 q" for q
    using w4 by simp
  have s3: "q \<noteq> (i, 9) \<Longrightarrow> value_at ws3 q = value_at ws2 q" for q
    using ws_cell_other [OF w3] by simp
  have a3: "bind_value (JStr (Estatus r)) = Inr (value_at ws3 (i, 9))"
    using ws_cell_at [OF w3] by simp
  have two: "(2::nat) \<in> set [2..<9]" by simp
  have s2: "q \<noteq> (i, 2) \<Longrightarrow> value_at ws2 q = value_at ?m q" for q
    using write_location_Inr [OF w2] by blast
  have a2: "Ubicacion r \<noteq> JNull \<Longrightarrow> bind_value (Ubicacion r) = Inr (value_at ws2 (i, 2))"
    using write_location_Inr [OF w2] two by blast
  have sm: "q \<notin> set (tl (range_cells ?rg)) \<Longrightarrow> value_at ?m q = value_at ws1 q" for q
    by (simp add: value_at_merge_cells)
  have s1: "q \<noteq> (i, 1) \<Longrightarrow> value_at ws1 q = value_at ws q" for q
    using ws_cell_other [OF w1] by simp
  have a1: "Unidad r \<noteq> JNull \<Longrightarrow> bind_value (Unidad r) = Inr (value_at ws1 (i, 1))"
    using ws_cell_at [OF w1] by simp
  have other: "value_at ws' q = value_at ws q" if "fst q \<noteq> i" for q
  proof -
    from that have n: "q \<noteq> (i, 9)" "q \<noteq> (i, 2)" "q \<noteq> (i, 1)" "q \<notin> set (tl (range_cells ?rg))"
      by (auto simp: row_range_cells)
    show ?thesis
      using v' [of q] s3 [OF n(1)] s2 [OF n(2)] sm [OF n(4)] s1 [OF n(3)] by simp
  qed
  have nc1: "(i, 1) \<notin> set (tl (range_cells ?rg))"
    by (simp add: row_range_cells)
  have c1: "value_at ws' (i, 1) = value_at ws1 (i, 1)"
    using v' [of "(i, 1)"] s3 [of "(i, 1)"] s2 [of "(i, 1)"] sm [OF nc1] by simp
  have c2: "value_at ws' (i, 2) = value_at ws2 (i, 2)"
    using v' [of "(i, 2)"] s3 [of "(i, 2)"] by simp
  have c9: "value_at ws' (i, 9) = value_at ws3 (i, 9)"
    using v' by simp
  from other a1 a2 a3 c1 c2 c9 show ?thesis by simp
qed

lemma write_rows_Inr:
  "write_rows ws i rs = Inr ws' \<Longrightarrow>
   (\<forall>q. fst q < i \<longrightarrow> value_at ws' q = value_at ws q)
   \<and> (\<forall>k<length rs.
        (Unidad (rs ! k) \<noteq> JNull \<longrightarrow>
           bind_value (Unidad (rs ! k)) = Inr (value_at ws' (i + k, 1)))
        \<and> (Ubicacion (rs ! k) \<noteq> JNull \<longrightarrow>
             bind_value (Ubicacion (rs ! k)) = Inr (value_at ws' (i + k, 2)))
        \<and> bind_value (JStr (Estatus (rs ! k))) = Inr (value_at ws' (i + k, 9)))"
proof (induction rs arbitrary: ws i)
  case Nil
  then show ?case by simp
next
  case (Cons r rs)
  from Cons.prems obtain ws1 where w1: "write_row ws i r = Inr ws1"
    and w2: "write_rows ws1 (Suc i) rs = Inr ws'"
    by (auto simp: and_then_eq_Inr)
  note ih = Cons.IH [OF w2]
  note row = write_row_Inr [OF w1]
  have keep: "value_at ws' (i, c) = value_at ws1 (i, c)" for c
    using ih by simp
  have below: "value_at ws' q = value_at ws q" if "fst q < i" for q
  proof -
    from that have "value_at ws' q = value_at ws1 q" using ih by (cases q) auto
    moreover from that have "value_at ws1 q = value_at ws q"
      using row by (cases q) auto
    ultimately show ?thesis by simp
  qed
  have rows: "(Unidad ((r # rs) ! k) \<noteq> JNull \<longrightarrow>
           bind_value (Unidad ((r # rs) ! k)) = Inr (value_at ws' (i + k, 1)))
        \<and> (Ubicacion ((r # rs) ! k) \<noteq> JNull \<longrightarrow>
             bind_value (Ubicacion ((r # rs) ! k)) = Inr (value_at ws' (i + k, 2)))
        \<and> bind_value (JStr (Estatus ((r # rs) ! k))) = Inr (value_at ws' (i + k, 9))"
    if "k < length (r # rs)" for k
  proof (cases k)
    case 0
    then show ?thesis using row keep by simp
  next
    case (Suc j)
    with that have "j < length rs" by simp
    with ih Suc show ?thesis by simp
  qed
  from below rows show ?case by blast
qed

lemma render_Inr:
  assumes "render ws0 dt rs = Inr ws" and "k < length rs"
  shows "(Unidad (rs ! k) \<noteq> JNull \<longrightarrow>
           bind_value (Unidad (rs ! k)) = Inr (value_at ws (start_row + k, 1)))
        \<and> (Ubicacion (rs ! k) \<noteq> JNull \<longrightarrow>
             bind_value (Ubicacion (rs ! k)) = Inr (value_at ws (start_row + k, 2)))
        \<and> bind_value (JStr (Estatus (rs ! k))) = Inr (value_at ws (start_row + k, 9))"
proof -
  from assms(1) obtain ws2 ws3 where
    w3: "write_rows ws2 start_row rs = Inr ws3"
    and w4: "set_value ws3 (2, 8) (JStr (count_formula rs)) = Inr ws"
    by (auto simp: render_def and_then_eq_Inr)
  have "value_at ws (start_row + k, c) = value_at ws3 (start_row + k, c)" for c
    using set_value_other [OF w4, of "(start_row + k, c)"] by (simp add: start_row_def)
  then show ?thesis
    using write_rows_Inr [OF w3] assms(2) by simp
qed

lemma location_of_truthy: "location_of L gps = Inr loc \<Longrightarrow> truthy loc"
  by (auto simp: location_of_def and_then_eq_Inr split: if_splits)

lemma process_record_row:
  "process_record L now special u = Inr (Some r) \<Longrightarrow>
   truthy (Ubicacion r) \<and> (Estatus r = ''DETENIDO'' \<or> Estatus r = ''RUTA'')"
  by (auto simp: process_record_def exclusion_gate_def motion_gates_def and_then_eq_Inr
      split: if_splits dest: location_of_truthy)

lemma process_all_results:
  "process_all L now special us acc lg = (Inr results, lg') \<Longrightarrow>
   results = acc @ concat (map (rows_of L now special) us)"
proof (induction us arbitrary: acc lg)
  case Nil
  then show ?case by simp
next
  case (Cons u us)
  show ?case
  proof (cases "process_record L now special u")
    case (Inl e)
    then have none: "rows_of L now special u = []" by (simp add: rows_of_def)
    from Inl Cons.prems obtain entry where
      "process_all L now special us acc (lg @ [entry]) = (Inr results, lg')"
      by (cases "on_record_error L u") auto
    then have "results = acc @ concat (map (rows_of L now special) us)"
      by (rule Cons.IH)
    with none show ?thesis by simp
  next
    case (Inr ro)
    show ?thesis
    proof (cases ro)
      case None
      with Inr have none: "rows_of L now special u = []" by (simp add: rows_of_def)
      from Inr None Cons.prems have
        "process_all L now special us acc lg = (Inr results, lg')" by simp
      then have "results = acc @ concat (map (rows_of L now special) us)"
        by (rule Cons.IH)
      with none show ?thesis by simp
    next
      case (Some r)
      with Inr have one: "rows_of L now special u = [r]" by (simp add: rows_of_def)
      from Inr Some Cons.prems have
        "process_all L now special us (acc @ [r]) lg = (Inr results, lg')" by simp
      then have "results = (acc @ [r]) @ concat (map (rows_of L now special) us)"
        by (rule Cons.IH)
      with one show ?thesis by simp
    qed
  qed
qed

lemma rows_of_truthy:
  "results = concat (map (rows_of L now special) us) \<Longrightarrow> r \<in> set results \<Longrightarrow>
   truthy (Ubicacion r)"
  by (auto simp: rows_of_def split: sum.splits option.splits dest: process_record_row [OF sym])

text \<open>
  Claim C6. When the loop ends with \<open>results\<close> and the report is rendered from them: the
  rows are those of the records of the input list that gave one, in the order of the
  list; and the row of index \<open>k\<close> is at sheet row \<open>7 + k\<close>, its location in column 2 and
  its status in column 9, as the worksheet stores them, and its unit name in column 1
  (a name that is \<^verbatim>\<open>None\<close> writes nothing there).
\<close>

theorem report_rows_in_input_order:
  assumes "process_all L now special us [] lg = (Inr results, lg')"
    and "render ws0 dt results = Inr ws"
  shows "results = concat (map (rows_of L now special) us)
       \<and> (\<forall>k<length results.
            bind_value (Ubicacion (results ! k)) = Inr (value_at ws (start_row + k, 2))
            \<and> bind_value (JStr (Estatus (results ! k))) = Inr (value_at ws (start_row + k, 9))
            \<and> (Unidad (results ! k) \<noteq> JNull \<longrightarrow>
                 bind_value (Unidad (results ! k)) = Inr (value_at ws (start_row + k, 1))))"
proof -
  have res: "results = concat (map (rows_of L now special) us)"
    using process_all_results [OF assms(1)] by simp
  have "bind_value (Ubicacion (results ! k)) = Inr (value_at ws (start_row + k, 2))
            \<and> bind_value (JStr (Estatus (results ! k))) = Inr (value_at ws (start_row + k, 9))
            \<and> (Unidad (results ! k) \<noteq> JNull \<longrightarrow>
                 bind_value (Unidad (results ! k)) = Inr (value_at ws (start_row + k, 1)))"
    if "k < length results" for k
  proof -
    have "results ! k \<in> set results"
      using that by (rule nth_mem)
    with res have "truthy (Ubicacion (results ! k))" by (rule rows_of_truthy)
    then have "Ubicacion (results ! k) \<noteq> JNull" by auto
    with render_Inr [OF assms(2) that] show ?thesis by simp
  qed
  with res show ?thesis by blast
qed

lemma scenario_rows:
  "process_all lib0 0 {JStr ''X1''} scenario_a [] [] = (Inr [row_x2], [])"
  by (simp add: scenario_a_def row_x2_def unit_of_def gps_x1_def gps_x2_def gps_x3_def
      process_record_def exclusion_gate_def motion_gates_def stale_def py_in_def hashable_def
      key_eq_def location_of_def lib0_def eq_zero_def)

lemma scenario_b_rows:
  "process_all lib0 0 {JStr ''X1''} scenario_b [] [] = (Inr [row_x2, row_x5], [])"
  by (simp add: scenario_b_def row_x2_def row_x5_def unit_of_def gps_x1_def gps_x2_def
      gps_x3_def gps_x5_def process_record_def exclusion_gate_def motion_gates_def stale_def
      py_in_def hashable_def key_eq_def location_of_def lib0_def eq_zero_def)

lemmas render_defs =
  render_def set_value_def get_cell_def unmerge_cells_def subrange_def range_cells_def
  start_row_def bind_value_def illegal_char_def isoformat_def hms_def pad2_def pad4_def
  show_nat.simps digit_def write_row_def ws_cell_def merge_cells_def set_border_def
  set_colours_def count_formula_def last_row_def show_int_def empty_cell_def
  new_merged_cell_def upt_rec

lemma render_x2: "\<exists>ws. render template0 now0 [row_x2] = Inr ws"
  by (simp add: template0_def now0_def row_x2_def render_defs)

lemma render_two_rows: "\<exists>ws. render template0 now0 [row_x2, row_x5] = Inr ws"
  by (simp add: template0_def now0_def row_x2_def row_x5_def render_defs)

text \<open>
  On the template with overlapping ranges, unmerging A7:B7 deletes the cell object at B7,
  and the row written at sheet row 7 finds a new, writable cell there.
\<close>

lemma render_overlap: "\<exists>ws. render template_overlap now0 [row_x2] = Inr ws"
  by (simp add: template_overlap_def now0_def row_x2_def render_defs)

lemma stored_text:
  "bind_value (JStr ''DETENIDO'') = Inr (JStr ''DETENIDO'')"
  "bind_value (JStr ''RUTA'') = Inr (JStr ''RUTA'')"
  "bind_value (JStr ''U2'') = Inr (JStr ''U2'')"
  "bind_value (JStr ''U5'') = Inr (JStr ''U5'')"
  "bind_value (JStr ''Lat: 19.5, Lon: -99.25'') = Inr (JStr ''Lat: 19.5, Lon: -99.25'')"
  "bind_value (JStr ''Av. Reforma 1'') = Inr (JStr ''Av. Reforma 1'')"
  by (simp_all add: bind_value_def illegal_char_def)

theorem report_rows_in_input_order_witness:
  "process_all lib0 0 {JStr ''X1''} scenario_b [] [] = (Inr [row_x2, row_x5], [])
   \<and> (\<exists>ws. render template0 now0 [row_x2, row_x5] = Inr ws
        \<and> value_at ws (7, 1) = JStr ''U2''
        \<and> value_at ws (7, 2) = JStr ''Lat: 19.5, Lon: -99.25''
        \<and> value_at ws (7, 9) = JStr ''DETENIDO''
        \<and> value_at ws (8, 1) = JStr ''U5''
        \<and> value_at ws (8, 2) = JStr ''Av. Reforma 1''
        \<and> value_at ws (8, 9) = JStr ''RUTA'')"
proof -
  obtain ws where r: "render template0 now0 [row_x2, row_x5] = Inr ws"
    using render_two_rows by blast
  note t = report_rows_in_input_order [OF scenario_b_rows r, THEN conjunct2, rule_format]
  from t [of 0] have "value_at ws (7, 1) = JStr ''U2''
      \<and> value_at ws (7, 2) = JStr ''Lat: 19.5, Lon: -99.25''
      \<and> value_at ws (7, 9) = JStr ''DETENIDO''"
    by (simp add: row_x2_def start_row_def stored_text)
  moreover from t [of 1] have "value_at ws (8, 1) = JStr ''U5''
      \<and> value_at ws (8, 2) = JStr ''Av. Reforma 1''
      \<and> value_at ws (8, 9) = JStr ''RUTA''"
    by (simp add: row_x5_def start_row_def stored_text)
  ultimately show ?thesis
    using r scenario_b_rows by blast
qed

lemma render_empty: "\<exists>ws. render template0 now0 [] = Inr ws"
  by (simp add: template0_def now0_def render_defs)

lemma main_no_vehicle:
  assumes "\<not> token_missing w"
    and "special_address_ids (tags_reply w) = Inr special"
    and "vehicles_reply w = Inr (JObj [(''data'', JList [])])"
    and "files s0 (plantilla_path w) = Some wb"
    and "render wb (now_mx w) [] = Inr ws"
    and "save_error w = None" and "smtp_error w = None" and "destinos w = [d]"
    and "media_reply w 0 = Inr m" and "template_reply w 0 = Inr t"
  shows "fst (main L w s0) = Completed
       \<and> mails (snd (main L w s0)) = mails s0 @ [nuevo_archivo w]"
  using assms
  by (simp add: main_def generar_excel_def entregar_def eliminar_def add_log_def
      split: option.splits)

text \<open>
  The claim as it stands ends the run whenever the payload of the tag endpoint is
  malformed. The reply \<open>tags_blank\<close> has the empty string where the list of addresses
  should be, and a reply may have no \<^verbatim>\<open>data\<close> at all: the builder returns the static
  identifiers, and the run of \<open>world_blank\<close> completes and mails its report.
\<close>

theorem exclusion_set_builder_counterexample:
  "special_address_ids tags_blank = Inr (JStr ` set predefined_special)
   \<and> special_address_ids (Inr (JObj [(''error'', JStr ''unavailable'')])) =
       Inr (JStr ` set predefined_special)
   \<and> tags_reply world_blank = tags_blank
   \<and> fst (main lib0 world_blank state1) = Completed
   \<and> mails (snd (main lib0 world_blank state1)) = [nuevo_archivo world_blank]"
proof -
  have sp: "special_address_ids tags_blank = Inr (JStr ` set predefined_special)"
    by (simp add: special_address_ids_def new_ids_def tags_blank_def)
  have sp': "special_address_ids (Inr (JObj [(''error'', JStr ''unavailable'')])) =
       Inr (JStr ` set predefined_special)"
    by (simp add: special_address_ids_def new_ids_def)
  have tr: "tags_reply world_blank = tags_blank"
    by (simp add: world_blank_def)
  obtain ws where r: "render template0 now0 [] = Inr ws"
    using render_empty by blast
  have "fst (main lib0 world_blank state1) = Completed
       \<and> mails (snd (main lib0 world_blank state1)) = mails state1 @ [nuevo_archivo world_blank]"
  proof (rule main_no_vehicle)
    show "\<not> token_missing world_blank"
      by (simp add: world_blank_def world1_def token_missing_def)
    show "special_address_ids (tags_reply world_blank) = Inr (JStr ` set predefined_special)"
      by (simp add: tr sp)
    show "vehicles_reply world_blank = Inr (JObj [(''data'', JList [])])"
      by (simp add: world_blank_def)
    show "files state1 (plantilla_path world_blank) = Some template0"
      by (simp add: state1_def plantilla_path_def world_blank_def world1_def)
    show "render template0 (now_mx world_blank) [] = Inr ws"
      using r by (simp add: world_blank_def world1_def)
    show "save_error world_blank = None" "smtp_error world_blank = None"
      "destinos world_blank = [''5215500000000'']"
      "media_reply world_blank 0 = Inr ''m''" "template_reply world_blank 0 = Inr ''w''"
      by (simp_all add: world_blank_def world1_def)
  qed
  then have "fst (main lib0 world_blank state1) = Completed
       \<and> mails (snd (main lib0 world_blank state1)) = [nuevo_archivo world_blank]"
    by (simp add: state1_def)
  with sp sp' tr show ?thesis by blast
qed

text \<open>
  Claim C7 asks that the formula of cell H2 count the written rows, and give 0 for an
  empty report. With no row, line 224 gives \<^verbatim>\<open>last_row = 6\<close>, above the first data row,
  and the formula written is \<^verbatim>\<open>=COUNTA(A7:A6)\<close>: its range names row 6, which no data
  row occupies, while the loop has written nothing. With one row it is \<^verbatim>\<open>A7:A7\<close>.
\<close>

theorem empty_report_formula:
  "last_row [] = 6
   \<and> last_row [] < int start_row
   \<and> count_formula [] = ''=COUNTA(A7:A6)''
   \<and> write_rows ws start_row [] = Inr ws
   \<and> count_formula [r] = ''=COUNTA(A7:A7)''"
  by (simp add: last_row_def start_row_def count_formula_def show_int_def show_nat.simps digit_def)

subsection \<open>The files of a run\<close>

lemma files_enviar_whatsapp [simp]:
  "files (snd (enviar_whatsapp w s k ds)) = files s"
  by (induction ds arbitrary: s k) (auto split: sum.splits)

lemma files_eliminar:
  "p \<noteq> nuevo_archivo w \<Longrightarrow> files (eliminar w s) p = files s p"
  by (simp add: eliminar_def split: option.splits)

lemma files_entregar:
  "p \<noteq> nuevo_archivo w \<Longrightarrow> files (snd (entregar w s)) p = files s p"
proof -
  assume p: "p \<noteq> nuevo_archivo w"
  show ?thesis
  proof (cases "smtp_error w")
    case (Some e)
    then show ?thesis by (simp add: entregar_def)
  next
    case None
    let ?s1 = "add_log (s\<lparr>mails := mails s @ [nuevo_archivo w]\<rparr>) CorreoEnviado"
    obtain x s' where r: "enviar_whatsapp w ?s1 0 (destinos w) = (x, s')"
      by (cases "enviar_whatsapp w ?s1 0 (destinos w)")
    have "files s' = files ?s1"
      using files_enviar_whatsapp [of w ?s1 0 "destinos w"] r by simp
    then have "files s' = files s" by simp
    then show ?thesis
      using None r p by (cases x) (simp_all add: entregar_def files_eliminar)
  qed
qed

lemma generar_excel_Inr:
  "generar_excel w s results = Inr s' \<Longrightarrow>
   \<exists>wb ws. files s (plantilla_path w) = Some wb \<and> render wb (now_mx w) results = Inr ws
     \<and> files s' = (files s)(nuevo_archivo w \<mapsto> ws)"
  by (auto simp: generar_excel_def and_then_eq_Inr split: option.splits)

lemma files_main:
  "p \<noteq> nuevo_archivo w \<Longrightarrow> files (snd (main L w s0)) p = files s0 p"
  by (auto simp: main_def files_entregar split: sum.splits prod.splits dest!: generar_excel_Inr)

lemma nuevo_not_plantilla: "nuevo_archivo w \<noteq> plantilla_path w"
  by (simp add: nuevo_archivo_def plantilla_path_def nuevo_archivo_name_def)

declare show_nat.simps [simp del]

lemma digit_inj: "i < 10 \<Longrightarrow> j < 10 \<Longrightarrow> digit i = digit j \<Longrightarrow> i = j"
proof -
  have "distinct ''0123456789''" by simp
  moreover have "length ''0123456789'' = 10" by simp
  ultimately show "i < 10 \<Longrightarrow> j < 10 \<Longrightarrow> digit i = digit j \<Longrightarrow> i = j"
    unfolding digit_def by (metis nth_eq_iff_index_eq)
qed

lemma digit_0: "digit 0 = CHR ''0''"
  by (simp add: digit_def)

lemma show_nat_small: "n < 10 \<Longrightarrow> show_nat n = [digit n]"
  by (subst show_nat.simps) simp

lemma show_nat_step:
  "10 \<le> n \<Longrightarrow> show_nat n = show_nat (n div 10) @ [digit (n mod 10)]"
  by (subst show_nat.simps) simp

lemma pad2_digits:
  "n < 100 \<Longrightarrow> pad2 n = [digit (n div 10), digit (n mod 10)]"
proof (cases "n < 10")
  case True
  then show ?thesis by (simp add: pad2_def show_nat_small digit_0)
next
  case False
  assume "n < 100"
  with False have "n div 10 < 10" "10 \<le> n" by simp_all
  with False show ?thesis by (simp add: pad2_def show_nat_step show_nat_small)
qed

lemma pad2_inj:
  assumes "n < 100" "m < 100" "pad2 n = pad2 m"
  shows "n = m"
proof -
  have eq: "digit (n div 10) = digit (m div 10)" "digit (n mod 10) = digit (m mod 10)"
    using assms by (simp_all add: pad2_digits)
  have "n div 10 = m div 10"
    using digit_inj [of "n div 10" "m div 10"] assms(1,2) eq(1) by simp
  moreover have "n mod 10 = m mod 10"
    using digit_inj [of "n mod 10" "m mod 10"] eq(2) by simp
  ultimately show ?thesis by (metis div_mult_mod_eq)
qed

lemma pad2_length: "n < 100 \<Longrightarrow> length (pad2 n) = 2"
  by (simp add: pad2_digits)

lemma show_nat_year:
  assumes "1000 \<le> y" "y < 10000"
  shows "show_nat y =
    [digit (y div 1000), digit (y div 100 mod 10),
     digit (y div 10 mod 10), digit (y mod 10)]"
proof -
  have a: "10 \<le> y" "10 \<le> y div 10" "10 \<le> y div 10 div 10" "y div 10 div 10 div 10 < 10"
    using assms by simp_all
  have b: "y div 10 div 10 = y div 100" "y div 100 div 10 = y div 1000"
    by (simp_all add: div_mult2_eq [symmetric])
  show ?thesis
    using a by (simp add: show_nat_step show_nat_small b)
qed

lemma div_mod_10_eq: "a div 10 = b div 10 \<Longrightarrow> a mod 10 = b mod 10 \<Longrightarrow> a = (b::nat)"
  by (metis div_mult_mod_eq)

lemma year_inj:
  assumes "1000 \<le> y" "y < 10000" "1000 \<le> z" "z < 10000" "show_nat y = show_nat z"
  shows "y = z"
proof -
  have eq: "digit (y div 1000) = digit (z div 1000)"
    "digit (y div 100 mod 10) = digit (z div 100 mod 10)"
    "digit (y div 10 mod 10) = digit (z div 10 mod 10)"
    "digit (y mod 10) = digit (z mod 10)"
    using assms by (simp_all add: show_nat_year)
  have d3: "y div 1000 = z div 1000"
    using digit_inj [of "y div 1000" "z div 1000"] assms(2,4) eq(1) by simp
  have d2: "y div 100 mod 10 = z div 100 mod 10"
    using digit_inj [of "y div 100 mod 10" "z div 100 mod 10"] eq(2) by simp
  have d1: "y div 10 mod 10 = z div 10 mod 10"
    using digit_inj [of "y div 10 mod 10" "z div 10 mod 10"] eq(3) by simp
  have d0: "y mod 10 = z mod 10"
    using digit_inj [of "y mod 10" "z mod 10"] eq(4) by simp
  have "y div 100 div 10 = z div 100 div 10"
    using d3 by (simp add: div_mult2_eq [symmetric])
  then have h: "y div 100 = z div 100"
    using d2 by (rule div_mod_10_eq)
  have "y div 10 div 10 = z div 10 div 10"
    using h by (simp add: div_mult2_eq [symmetric])
  then have "y div 10 = z div 10"
    using d1 by (rule div_mod_10_eq)
  then show ?thesis
    using d0 by (rule div_mod_10_eq)
qed

lemma ts_str_inj:
  assumes "clock_fields d" "clock_fields d'" "ts_str d = ts_str d'"
  shows "year d = year d' \<and> month d = month d' \<and> day d = day d'
       \<and> hour d = hour d' \<and> minute d = minute d' \<and> second d = second d'"
proof -
  have l: "length (show_nat (year d)) = 4" "length (show_nat (year d')) = 4"
    using assms(1,2) by (simp_all add: clock_fields_def show_nat_year)
  have p: "length (pad2 (month d)) = 2" "length (pad2 (day d)) = 2"
    "length (pad2 (hour d)) = 2" "length (pad2 (minute d)) = 2"
    "length (pad2 (month d')) = 2" "length (pad2 (day d')) = 2"
    "length (pad2 (hour d')) = 2" "length (pad2 (minute d')) = 2"
    using assms(1,2) by (simp_all add: clock_fields_def pad2_length)
  from assms(3) have "show_nat (year d) = show_nat (year d')
      \<and> pad2 (month d) = pad2 (month d') \<and> pad2 (day d) = pad2 (day d')
      \<and> pad2 (hour d) = pad2 (hour d') \<and> pad2 (minute d) = pad2 (minute d')
      \<and> pad2 (second d) = pad2 (second d')"
    using l p by (simp add: ts_str_def)
  then show ?thesis
    using assms(1,2) by (auto simp: clock_fields_def dest: year_inj pad2_inj)
qed

text \<open>
  Claim C9. A run leaves the template as it found it, and every file other than the new
  one: the only path a run writes or removes is \<^verbatim>\<open>nuevo_archivo\<close>. That path is not the
  template's; its name is \<^verbatim>\<open>Reporte de estatus de unidades \<close>, the time of the run as
  \<^verbatim>\<open>%Y-%m-%d_%H-%M-%S\<close> and \<^verbatim>\<open>.xlsx\<close>. When lines 179 to 231 succeed, the sheet
  rendered from the template is at that path and the template is as it was. Two runs of
  the same directory at times that differ in a field down to the second have different
  paths.
\<close>

theorem report_file_is_new:
  "files (snd (main L w s0)) (plantilla_path w) = files s0 (plantilla_path w)
   \<and> (\<forall>p. p \<noteq> nuevo_archivo w \<longrightarrow> files (snd (main L w s0)) p = files s0 p)
   \<and> nuevo_archivo w \<noteq> plantilla_path w
   \<and> nuevo_archivo w =
       base_dir w @ ''/'' @ ''Reporte de estatus de unidades '' @ ts_str (now_mx w) @ ''.xlsx''
   \<and> (\<forall>s results s'. generar_excel w s results = Inr s' \<longrightarrow>
        (\<exists>wb ws. files s (plantilla_path w) = Some wb
           \<and> render wb (now_mx w) results = Inr ws
           \<and> files s' = (files s)(nuevo_archivo w \<mapsto> ws)
           \<and> files s' (plantilla_path w) = Some wb))
   \<and> (\<forall>w'. clock_fields (now_mx w) \<and> clock_fields (now_mx w') \<and> base_dir w' = base_dir w
        \<and> nuevo_archivo w' = nuevo_archivo w \<longrightarrow>
        year (now_mx w') = year (now_mx w) \<and> month (now_mx w') = month (now_mx w)
        \<and> day (now_mx w') = day (now_mx w) \<and> hour (now_mx w') = hour (now_mx w)
        \<and> minute (now_mx w') = minute (now_mx w) \<and> second (now_mx w') = second (now_mx w))"
proof (intro conjI)
  show "files (snd (main L w s0)) (plantilla_path w) = files s0 (plantilla_path w)"
    using nuevo_not_plantilla [of w] by (simp add: files_main)
  show "nuevo_archivo w \<noteq> plantilla_path w" by (rule nuevo_not_plantilla)
  show "nuevo_archivo w =
       base_dir w @ ''/'' @ ''Reporte de estatus de unidades '' @ ts_str (now_mx w) @ ''.xlsx''"
    by (simp only: nuevo_archivo_def nuevo_archivo_name_def)
  show "\<forall>p. p \<noteq> nuevo_archivo w \<longrightarrow> files (snd (main L w s0)) p = files s0 p"
    by (simp add: files_main)
  show "\<forall>s results s'. generar_excel w s results = Inr s' \<longrightarrow>
        (\<exists>wb ws. files s (plantilla_path w) = Some wb
           \<and> render wb (now_mx w) results = Inr ws
           \<and> files s' = (files s)(nuevo_archivo w \<mapsto> ws)
           \<and> files s' (plantilla_path w) = Some wb)"
    using nuevo_not_plantilla [of w] by (auto dest!: generar_excel_Inr)
  show "\<forall>w'. clock_fields (now_mx w) \<and> clock_fields (now_mx w') \<and> base_dir w' = base_dir w
        \<and> nuevo_archivo w' = nuevo_archivo w \<longrightarrow>
        year (now_mx w') = year (now_mx w) \<and> month (now_mx w') = month (now_mx w)
        \<and> day (now_mx w') = day (now_mx w) \<and> hour (now_mx w') = hour (now_mx w)
        \<and> minute (now_mx w') = minute (now_mx w) \<and> second (now_mx w') = second (now_mx w)"
  proof (intro allI impI)
    fix w'
    assume h: "clock_fields (now_mx w) \<and> clock_fields (now_mx w') \<and> base_dir w' = base_dir w
        \<and> nuevo_archivo w' = nuevo_archivo w"
    then have "nuevo_archivo w' = nuevo_archivo w" and "base_dir w' = base_dir w"
      by simp_all
    then have "ts_str (now_mx w') = ts_str (now_mx w)"
      by (simp only: nuevo_archivo_def nuevo_archivo_name_def same_append_eq append_same_eq)
    with h ts_str_inj [of "now_mx w'" "now_mx w"]
    show "year (now_mx w') = year (now_mx w) \<and> month (now_mx w') = month (now_mx w)
        \<and> day (now_mx w') = day (now_mx w) \<and> hour (now_mx w') = hour (now_mx w)
        \<and> minute (now_mx w') = minute (now_mx w) \<and> second (now_mx w') = second (now_mx w)"
      by blast
  qed
qed

theorem report_file_is_new_witness:
  "files state1 (plantilla_path world1) = Some template0
   \<and> files (snd (main lib0 world1 state1)) (plantilla_path world1) = Some template0
   \<and> nuevo_archivo world1 \<noteq> plantilla_path world1
   \<and> nuevo_archivo world1 = ''/srv/Reporte de estatus de unidades 2025-03-09_07-05-00.xlsx''
   \<and> (\<exists>s'. generar_excel world1 state1 [row_x2] = Inr s'
        \<and> files s' (plantilla_path world1) = Some template0)"
proof -
  have f: "files state1 (plantilla_path world1) = Some template0"
    by (simp add: state1_def plantilla_path_def world1_def)
  have n: "nuevo_archivo world1 = ''/srv/Reporte de estatus de unidades 2025-03-09_07-05-00.xlsx''"
    by (simp add: nuevo_archivo_def nuevo_archivo_name_def world1_def now0_def ts_str_def
        pad2_def show_nat.simps digit_def)
  obtain ws where "render template0 now0 [row_x2] = Inr ws"
    using render_x2 by blast
  then obtain s' where g: "generar_excel world1 state1 [row_x2] = Inr s'"
    using f by (simp add: generar_excel_def) (simp add: world1_def)
  note t = report_file_is_new [of lib0 world1 state1]
  from t g f have "files s' (plantilla_path world1) = Some template0"
    by (metis option.inject)
  with t f g n show ?thesis by metis
qed

end
